theory Spec2Isabelle
  imports Main "HOL-Library.Word"
begin

section \<open>Particles and their property pool (deal.II, namespace Particles)\<close>

text \<open>
  The development embeds \<^verbatim>\<open>include/deal.II/particles/particle.h\<close>: the class
  \<^verbatim>\<open>Particle<dim, spacedim>\<close> and its inline members \<^verbatim>\<open>has_properties\<close>,
  \<^verbatim>\<open>get_properties() const\<close>, \<^verbatim>\<open>set_property_pool\<close>, \<^verbatim>\<open>save\<close> and \<^verbatim>\<open>load\<close>.
  A particle is a record value; the property pools it points to live in an explicit
  store, a map from pool addresses to pool states, since several particles (and the two
  pools of \<^verbatim>\<open>set_property_pool\<close>) may alias one pool. Every operation that can raise
  returns an error or a value together with the particle and the store as they are at
  that moment, so that what a failed call leaves behind can be stated. The class
  \<^verbatim>\<open>PropertyPool\<close>, the non-const \<^verbatim>\<open>get_properties()\<close> and the copy and move
  operations are declared but not defined in that header; their definitions here follow
  the specification and say so.
\<close>

subsection \<open>Data\<close>

text \<open>A \<^verbatim>\<open>double\<close> is its 64 bit pattern: the particle code only copies doubles.\<close>

type_synonym double = "64 word"

text \<open>
  \<^verbatim>\<open>types::particle_index\<close> in the default build (\<^verbatim>\<open>DEAL_II_WITH_64BIT_INDICES\<close>
  undefined): \<^verbatim>\<open>unsigned int\<close>.
\<close>

type_synonym particle_index = "32 word"

text \<open>A \<^verbatim>\<open>Point<dim>\<close> is the list of its coordinates.\<close>

type_synonym Point = "double list"

text \<open>The address of a \<^verbatim>\<open>PropertyPool\<close> object; \<open>None\<close> is \<^verbatim>\<open>nullptr\<close>.\<close>

type_synonym pool_ptr = nat

text \<open>
  Modelled from the spec: \<^verbatim>\<open>PropertyPool::Handle\<close> (property_pool.h is not among the
  sources). The spec's section 3: a handle is an opaque index into the arena, or the
  sentinel \<^verbatim>\<open>invalid_handle\<close>.
\<close>

datatype Handle = invalid_handle | Slot nat

datatype error =
    ExcInternalError
  | ExcMessage string
  | ExcInvalidHandle
  | ExcArchive

text \<open>
  Modelled from the spec: the class \<^verbatim>\<open>PropertyPool\<close> (property_pool.h is not among the
  sources). The spec's sections 3 and 4.1: the pool owns an arena of slots of
  \<^verbatim>\<open>n_properties_per_slot\<close> doubles each, the count fixed at construction, and keeps the
  released slots in a free list for reuse. The count is an \<^verbatim>\<open>unsigned int\<close>, the type in
  which \<^verbatim>\<open>Particle::save\<close> and \<^verbatim>\<open>Particle::load\<close> hold it.
\<close>

record PropertyPool =
  n_properties_per_slot :: "32 word"
  slots :: "double list list"
  free_list :: "nat list"

type_synonym store = "pool_ptr \<Rightarrow> PropertyPool"

text \<open>
  An \<^verbatim>\<open>ArrayView<double>\<close>: a pointer into a pool's arena (the pool and the slot) and a
  number of elements.
\<close>

record ArrayView =
  view_pool :: pool_ptr
  view_slot :: nat
  view_size :: nat

text \<open>The private members of \<^verbatim>\<open>Particle\<close> (particle.h, lines 461-486).\<close>

record Particle =
  location :: Point
  reference_location :: Point
  id :: particle_index
  property_pool :: "pool_ptr option"
  properties :: Handle

subsection \<open>The property pool\<close>

text \<open>
  Modelled from the spec: a handle is valid only between \<^verbatim>\<open>allocate\<close> and the matching
  \<^verbatim>\<open>deallocate\<close> (section 3).
\<close>

definition is_live :: "PropertyPool \<Rightarrow> nat \<Rightarrow> bool" where
  "is_live p h \<longleftrightarrow> h < length (slots p) \<and> h \<notin> set (free_list p)"

text \<open>
  Modelled from the spec: \<^verbatim>\<open>PropertyPool::allocate_properties_array\<close> (section 4.1,
  \<^verbatim>\<open>allocate()\<close>): returns a fresh handle backed by \<^verbatim>\<open>n_properties_per_slot\<close>
  zero-initialized doubles; it reuses a slot of the free list when there is one and grows
  the arena otherwise.
\<close>

definition allocate_properties_array :: "PropertyPool \<Rightarrow> Handle \<times> PropertyPool" where
  "allocate_properties_array p =
     (case free_list p of
        [] \<Rightarrow>
          (Slot (length (slots p)),
           p\<lparr>slots := slots p @ [replicate (unat (n_properties_per_slot p)) 0]\<rparr>)
      | h # hs \<Rightarrow>
          (Slot h,
           p\<lparr>slots := (slots p)[h := replicate (unat (n_properties_per_slot p)) 0],
             free_list := hs\<rparr>))"

text \<open>
  Modelled from the spec: \<^verbatim>\<open>PropertyPool::deallocate_properties_array\<close> (section 4.1,
  \<^verbatim>\<open>deallocate(handle)\<close>): fails if the handle is invalid or already released,
  otherwise returns the slot to the free list; the arena does not shrink.
\<close>

definition deallocate_properties_array :: "PropertyPool \<Rightarrow> Handle \<Rightarrow> error + PropertyPool" where
  "deallocate_properties_array p handle =
     (case handle of
        invalid_handle \<Rightarrow> Inl ExcInvalidHandle
      | Slot h \<Rightarrow>
          if is_live p h then Inr (p\<lparr>free_list := h # free_list p\<rparr>)
          else Inl ExcInvalidHandle)"

text \<open>
  Modelled from the spec: \<^verbatim>\<open>PropertyPool::get_properties(handle)\<close> (section 4.1): a
  fixed-length view into the slot; fails if the handle is \<^verbatim>\<open>invalid_handle\<close>, and
  (section 7, error class (a)) if it is a released handle.
\<close>

definition pool_get_properties :: "store \<Rightarrow> pool_ptr \<Rightarrow> Handle \<Rightarrow> error + ArrayView" where
  "pool_get_properties s q handle =
     (case handle of
        invalid_handle \<Rightarrow> Inl ExcInvalidHandle
      | Slot h \<Rightarrow>
          if is_live (s q) h
          then Inr \<lparr>view_pool = q, view_slot = h,
                    view_size = unat (n_properties_per_slot (s q))\<rparr>
          else Inl ExcInvalidHandle)"

text \<open>The doubles a view shows, and the store after the doubles \<open>xs\<close> are written at its start.\<close>

definition read_view :: "store \<Rightarrow> ArrayView \<Rightarrow> double list" where
  "read_view s v = take (view_size v) (slots (s (view_pool v)) ! view_slot v)"

definition write_view :: "store \<Rightarrow> ArrayView \<Rightarrow> double list \<Rightarrow> store" where
  "write_view s v xs =
     s(view_pool v :=
         (s (view_pool v))
           \<lparr>slots := (slots (s (view_pool v)))
              [view_slot v := xs @ drop (length xs) (slots (s (view_pool v)) ! view_slot v)]\<rparr>)"

text \<open>
  \<^verbatim>\<open>std::copy(src.cbegin(), src.cend(), dst.begin())\<close>: unchecked, it has no failing
  step. Every double of the source is written, from the first element of the destination
  on. When the source is longer than the destination the last doubles are written past
  the destination's end (undefined behaviour in the source); the model keeps them behind
  the doubles of that slot, where no view of the pool's size shows them.
\<close>

definition copy_view :: "store \<Rightarrow> ArrayView \<Rightarrow> ArrayView \<Rightarrow> store" where
  "copy_view s src dst = write_view s dst (read_view s src)"

subsection \<open>Particle: the accessors\<close>

text \<open>\<^verbatim>\<open>Particle::has_properties\<close> (particle.h, lines 641-647).\<close>

definition has_properties :: "Particle \<Rightarrow> bool" where
  "has_properties P \<longleftrightarrow> property_pool P \<noteq> None \<and> properties P \<noteq> invalid_handle"

text \<open>
  \<^verbatim>\<open>Particle::get_properties() const\<close> (particle.h, lines 630-637). Modelled from the
  spec: the macro \<^verbatim>\<open>Assert\<close> (exceptions.h is not among the sources); section 7 has
  every assertion-style failure surfaced at the call site, so a false condition raises.
\<close>

definition get_properties_const :: "store \<Rightarrow> Particle \<Rightarrow> error + ArrayView" where
  "get_properties_const s P =
     (if \<not> has_properties P then Inl ExcInternalError
      else pool_get_properties s (the (property_pool P)) (properties P))"

text \<open>
  Modelled from the spec: the non-const \<^verbatim>\<open>Particle::get_properties()\<close> (particle.cc is
  not among the sources). Section 4.2 and the declaration's comment (particle.h, lines
  392-403): it fails if no pool is bound; with a pool and no allocation yet it allocates
  from the pool; then it returns the pool's view.
\<close>

definition get_properties :: "Particle \<Rightarrow> store \<Rightarrow> (error + ArrayView) \<times> Particle \<times> store" where
  "get_properties P s =
     (case property_pool P of
        None \<Rightarrow> (Inl ExcInternalError, P, s)
      | Some q \<Rightarrow>
          if properties P = invalid_handle then
            (case allocate_properties_array (s q) of
               (h, p') \<Rightarrow>
                 (pool_get_properties (s(q := p')) q h, P\<lparr>properties := h\<rparr>, s(q := p')))
          else (pool_get_properties s q (properties P), P, s))"

subsection \<open>Particle: rebinding the pool\<close>

text \<open>
  The tail of \<^verbatim>\<open>Particle::set_property_pool\<close> (particle.h, lines 615-625): the old
  handle, if the particle has one, is released in the old pool; then the pool pointer and
  the handle are assigned.
\<close>

definition release_and_rebind ::
  "pool_ptr \<Rightarrow> Handle \<Rightarrow> Particle \<Rightarrow> store \<Rightarrow> (error + unit) \<times> Particle \<times> store" where
  "release_and_rebind new_property_pool new_handle P s =
     (if property_pool P \<noteq> None \<and> properties P \<noteq> invalid_handle then
        (case deallocate_properties_array (s (the (property_pool P))) (properties P) of
           Inl e \<Rightarrow> (Inl e, P, s)
         | Inr p' \<Rightarrow>
             (Inr (),
              P\<lparr>property_pool := Some new_property_pool, properties := new_handle\<rparr>,
              s(the (property_pool P) := p')))
      else
        (Inr (), P\<lparr>property_pool := Some new_property_pool, properties := new_handle\<rparr>, s))"

text \<open>
  \<^verbatim>\<open>Particle::set_property_pool\<close> (particle.h, lines 592-626). The member is not
  const, so \<^verbatim>\<open>this->get_properties()\<close> is the non-const overload.
\<close>

definition set_property_pool ::
  "pool_ptr \<Rightarrow> Particle \<Rightarrow> store \<Rightarrow> (error + unit) \<times> Particle \<times> store" where
  "set_property_pool new_property_pool P s =
     (if property_pool P \<noteq> None \<and> properties P \<noteq> invalid_handle then
        (case allocate_properties_array (s new_property_pool) of
           (new_handle, p') \<Rightarrow>
             (case get_properties P (s(new_property_pool := p')) of
                (Inl e, P1, s1) \<Rightarrow> (Inl e, P1, s1)
              | (Inr old_properties, P1, s1) \<Rightarrow>
                  (case pool_get_properties s1 new_property_pool new_handle of
                     Inl e \<Rightarrow> (Inl e, P1, s1)
                   | Inr new_properties \<Rightarrow>
                       release_and_rebind new_property_pool new_handle P1
                         (copy_view s1 old_properties new_properties))))
      else release_and_rebind new_property_pool invalid_handle P s)"

subsection \<open>Particle: serialization through an archive\<close>

text \<open>
  The archive is a template parameter of \<^verbatim>\<open>save\<close> and \<^verbatim>\<open>load\<close>. It is modelled as
  the sequence of the objects written to it: \<^verbatim>\<open>ar & x\<close> appends \<open>x\<close> to an output
  archive and takes the next object from an input archive, which raises when the next
  object is not of the type asked for.
\<close>

datatype item =
    Coordinates Point
  | Index particle_index
  | Unsigned "32 word"
  | Doubles "double list"

type_synonym archive = "item list"

definition read_point :: "archive \<Rightarrow> error + Point \<times> archive" where
  "read_point ar = (case ar of Coordinates c # rest \<Rightarrow> Inr (c, rest) | _ \<Rightarrow> Inl ExcArchive)"

definition read_index :: "archive \<Rightarrow> error + particle_index \<times> archive" where
  "read_index ar = (case ar of Index i # rest \<Rightarrow> Inr (i, rest) | _ \<Rightarrow> Inl ExcArchive)"

definition read_unsigned :: "archive \<Rightarrow> error + 32 word \<times> archive" where
  "read_unsigned ar = (case ar of Unsigned n # rest \<Rightarrow> Inr (n, rest) | _ \<Rightarrow> Inl ExcArchive)"

text \<open>\<^verbatim>\<open>boost::serialization::make_array(data, n)\<close> read from an input archive.\<close>

definition read_array :: "nat \<Rightarrow> archive \<Rightarrow> error + double list \<times> archive" where
  "read_array n ar =
     (case ar of
        Doubles ds # rest \<Rightarrow> if length ds = n then Inr (ds, rest) else Inl ExcArchive
      | _ \<Rightarrow> Inl ExcArchive)"

text \<open>\<^verbatim>\<open>std::to_string\<close> of an unsigned number: its decimal digits.\<close>

fun to_string :: "nat \<Rightarrow> string" where
  "to_string n =
     (if n < 10 then [''0123456789'' ! n]
      else to_string (n div 10) @ [''0123456789'' ! (n mod 10)])"

declare to_string.simps [simp del]

text \<open>The message of the assertion in \<^verbatim>\<open>Particle::load\<close> (particle.h, lines 505-510).\<close>

definition size_mismatch_message :: "nat \<Rightarrow> nat \<Rightarrow> string" where
  "size_mismatch_message n_properties provided =
     ''This particle was serialized with '' @ to_string n_properties @
     '' properties, but the new property handler provides space for '' @
     to_string provided @
     '' properties. Deserializing a particle only works for matching property sizes.''"

text \<open>
  \<^verbatim>\<open>Particle::save\<close> (particle.h, lines 519-534). \<^verbatim>\<open>n_properties\<close> is an
  \<^verbatim>\<open>unsigned int\<close>, so the view's \<^verbatim>\<open>size()\<close> is converted to 32 bits. The result
  holds the archive as it is when the call ends or raises.
\<close>

definition save :: "Particle \<Rightarrow> store \<Rightarrow> archive \<Rightarrow> (error + unit) \<times> archive" where
  "save P s ar =
     (case (if property_pool P \<noteq> None \<and> properties P \<noteq> invalid_handle
            then (case get_properties_const s P of
                    Inl e \<Rightarrow> Inl e
                  | Inr v \<Rightarrow> Inr (of_nat (view_size v)))
            else Inr 0) of
        Inl e \<Rightarrow> (Inl e, ar)
      | Inr (n_properties :: 32 word) \<Rightarrow>
          if n_properties > 0 then
            (case get_properties_const s P of
               Inl e \<Rightarrow>
                 (Inl e,
                  ar @ [Coordinates (location P), Coordinates (reference_location P),
                        Index (id P), Unsigned n_properties])
             | Inr v \<Rightarrow>
                 (Inr (),
                  ar @ [Coordinates (location P), Coordinates (reference_location P),
                        Index (id P), Unsigned n_properties,
                        Doubles (take (unat n_properties) (read_view s v))]))
          else
            (Inr (),
             ar @ [Coordinates (location P), Coordinates (reference_location P),
                   Index (id P), Unsigned n_properties]))"

text \<open>
  \<^verbatim>\<open>Particle::load\<close> (particle.h, lines 491-515). The member is not const, so both
  calls of \<^verbatim>\<open>get_properties()\<close> are the non-const overload. The result holds the
  particle, the store and the rest of the archive as they are when the call ends or
  raises.
\<close>

definition load ::
  "Particle \<Rightarrow> store \<Rightarrow> archive \<Rightarrow> (error + unit) \<times> Particle \<times> store \<times> archive" where
  "load P s ar =
     (case read_point ar of
        Inl e \<Rightarrow> (Inl e, P, s, ar)
      | Inr (l, ar1) \<Rightarrow>
     (case read_point ar1 of
        Inl e \<Rightarrow> (Inl e, P\<lparr>location := l\<rparr>, s, ar1)
      | Inr (r, ar2) \<Rightarrow>
     (case read_index ar2 of
        Inl e \<Rightarrow> (Inl e, P\<lparr>location := l, reference_location := r\<rparr>, s, ar2)
      | Inr (i, ar3) \<Rightarrow>
     (case read_unsigned ar3 of
        Inl e \<Rightarrow> (Inl e, P\<lparr>location := l, reference_location := r, id := i\<rparr>, s, ar3)
      | Inr (n_properties, ar4) \<Rightarrow>
          if n_properties > 0 then
            (case get_properties (P\<lparr>location := l, reference_location := r, id := i\<rparr>) s of
               (Inl e, P1, s1) \<Rightarrow> (Inl e, P1, s1, ar4)
             | (Inr properties_view, P1, s1) \<Rightarrow>
                 if view_size properties_view \<noteq> unat n_properties then
                   (Inl (ExcMessage
                           (size_mismatch_message (unat n_properties)
                              (view_size properties_view))),
                    P1, s1, ar4)
                 else
                   (case get_properties P1 s1 of
                      (Inl e, P2, s2) \<Rightarrow> (Inl e, P2, s2, ar4)
                    | (Inr data, P2, s2) \<Rightarrow>
                        (case read_array (unat n_properties) ar4 of
                           Inl e \<Rightarrow> (Inl e, P2, s2, ar4)
                         | Inr (ds, rest) \<Rightarrow> (Inr (), P2, write_view s2 data ds, rest))))
          else (Inr (), P\<lparr>location := l, reference_location := r, id := i\<rparr>, s, ar4)))))"

subsection \<open>Particle: copying and moving\<close>

text \<open>
  Modelled from the spec: the copy constructor and copy assignment of \<^verbatim>\<open>Particle\<close>
  (particle.cc is not among the sources). Section 4.2: the copy duplicates the location
  and the id (the comment at particle.h, lines 169-175: exactly the state of the
  argument); if the source has properties it allocates a new handle in the same pool and
  deep-copies the values; it never shares a handle. The result is the new particle and
  the store.
\<close>

definition copy_particle :: "Particle \<Rightarrow> store \<Rightarrow> (error + Particle) \<times> store" where
  "copy_particle P s =
     (if has_properties P then
        (case allocate_properties_array (s (the (property_pool P))) of
           (h, p') \<Rightarrow>
             (case pool_get_properties (s(the (property_pool P) := p'))
                     (the (property_pool P)) h of
                Inl e \<Rightarrow> (Inl e, s(the (property_pool P) := p'))
              | Inr my_properties \<Rightarrow>
                  (case get_properties_const (s(the (property_pool P) := p')) P of
                     Inl e \<Rightarrow> (Inl e, s(the (property_pool P) := p'))
                   | Inr their_properties \<Rightarrow>
                       (Inr (P\<lparr>properties := h\<rparr>),
                        copy_view (s(the (property_pool P) := p'))
                          their_properties my_properties))))
      else (Inr (P\<lparr>properties := invalid_handle\<rparr>), s))"

text \<open>
  Modelled from the spec: the move constructor and move assignment of \<^verbatim>\<open>Particle\<close>
  (particle.cc is not among the sources). Section 4.2: location, id, pool pointer and
  handle are transferred, and the source's handle is reset to invalid. The result is the
  new particle and the source as the move leaves it.
\<close>

definition move_particle :: "Particle \<Rightarrow> Particle \<times> Particle" where
  "move_particle P = (P, P\<lparr>properties := invalid_handle\<rparr>)"

subsection \<open>Well-formed pools and particles\<close>

text \<open>
  The pool's representation invariant: the free list names each released slot once, all
  of them inside the arena, and every slot has the configured number of doubles.
\<close>

definition pool_ok :: "PropertyPool \<Rightarrow> bool" where
  "pool_ok p \<longleftrightarrow>
     distinct (free_list p) \<and>
     (\<forall>h \<in> set (free_list p). h < length (slots p)) \<and>
     (\<forall>sl \<in> set (slots p). length sl = unat (n_properties_per_slot p))"

text \<open>
  A particle is well-formed in a store when the pool it points to is well-formed and its
  handle, if valid, is live there (allocated and not released).
\<close>

definition particle_ok :: "store \<Rightarrow> Particle \<Rightarrow> bool" where
  "particle_ok s P \<longleftrightarrow>
     (case property_pool P of
        None \<Rightarrow> True
      | Some q \<Rightarrow>
          pool_ok (s q) \<and>
          (case properties P of invalid_handle \<Rightarrow> True | Slot h \<Rightarrow> is_live (s q) h))"

subsection \<open>Observations\<close>

text \<open>
  The property values a particle shows in a store: the doubles of the view that
  \<^verbatim>\<open>get_properties() const\<close> returns, and no value when the particle has no properties.
\<close>

definition property_values :: "store \<Rightarrow> Particle \<Rightarrow> double list" where
  "property_values s P =
     (case get_properties_const s P of Inl e \<Rightarrow> [] | Inr v \<Rightarrow> read_view s v)"

text \<open>The slot a particle owns: its pool and its handle, when it has both.\<close>

definition owned_slot :: "Particle \<Rightarrow> (pool_ptr \<times> nat) list" where
  "owned_slot P =
     (case property_pool P of
        None \<Rightarrow> []
      | Some q \<Rightarrow> (case properties P of invalid_handle \<Rightarrow> [] | Slot h \<Rightarrow> [(q, h)]))"

text \<open>
  Unique ownership among the particles alive at one time: each is well-formed, and no
  slot of a pool is owned by two of them.
\<close>

definition unique_owners :: "store \<Rightarrow> Particle list \<Rightarrow> bool" where
  "unique_owners s Ps \<longleftrightarrow>
     (\<forall>P \<in> set Ps. particle_ok s P) \<and> distinct (concat (map owned_slot Ps))"

subsection \<open>Example states\<close>

text \<open>
  A pool of two properties per slot with one live slot, a pool of three properties per
  slot with no slot yet; a store with the first pool at address 0 and the second at every
  other address; and three particles: one that owns slot 0 of the pool at address 0, one
  bound to that pool without properties, and one with no pool.
\<close>

definition pool_of_two :: PropertyPool where
  "pool_of_two = \<lparr>n_properties_per_slot = 2, slots = [[5, 6]], free_list = []\<rparr>"

definition pool_of_three :: PropertyPool where
  "pool_of_three = \<lparr>n_properties_per_slot = 3, slots = [], free_list = []\<rparr>"

definition example_store :: store where
  "example_store = (\<lambda>q. if q = 0 then pool_of_two else pool_of_three)"

definition owning_particle :: Particle where
  "owning_particle =
     \<lparr>location = [1, 2], reference_location = [3, 4], id = 7,
      property_pool = Some 0, properties = Slot 0\<rparr>"

definition bound_particle :: Particle where
  "bound_particle =
     \<lparr>location = [0, 0], reference_location = [0, 0], id = 0,
      property_pool = Some 0, properties = invalid_handle\<rparr>"

definition unbound_particle :: Particle where
  "unbound_particle =
     \<lparr>location = [0, 0], reference_location = [0, 0], id = 0,
      property_pool = None, properties = invalid_handle\<rparr>"

section \<open>Facts about the operations\<close>

subsection \<open>Facts about the pool\<close>

lemma pool_ok_nth:
  "pool_ok p \<longleftrightarrow>
     distinct (free_list p) \<and>
     (\<forall>h \<in> set (free_list p). h < length (slots p)) \<and>
     (\<forall>i < length (slots p). length (slots p ! i) = unat (n_properties_per_slot p))"
  by (simp add: pool_ok_def all_set_conv_all_nth)

lemma allocate_fresh:
  assumes "pool_ok p" and "allocate_properties_array p = (h, p')"
  shows "\<exists>i. h = Slot i \<and> \<not> is_live p i \<and> is_live p' i \<and>
           slots p' ! i = replicate (unat (n_properties_per_slot p)) 0"
  using assms
  by (auto simp: allocate_properties_array_def pool_ok_def is_live_def split: list.splits)

lemma allocate_pool_ok:
  assumes "pool_ok p" and "allocate_properties_array p = (h, p')"
  shows "pool_ok p'"
  using assms
  by (auto simp: allocate_properties_array_def pool_ok_nth is_live_def nth_append
        nth_list_update split: list.splits)

lemma allocate_count:
  assumes "allocate_properties_array p = (h, p')"
  shows "n_properties_per_slot p' = n_properties_per_slot p"
  using assms by (auto simp: allocate_properties_array_def split: list.splits)

lemma allocate_keeps:
  assumes "pool_ok p" and "allocate_properties_array p = (h, p')" and "is_live p j"
  shows "is_live p' j" and "slots p' ! j = slots p ! j"
  using assms
  by (auto simp: allocate_properties_array_def pool_ok_def is_live_def nth_append
        split: list.splits)

lemma deallocate_live:
  assumes "is_live p h"
  shows "deallocate_properties_array p (Slot h) = Inr (p\<lparr>free_list := h # free_list p\<rparr>)"
  using assms by (simp add: deallocate_properties_array_def)

lemma deallocate_pool_ok:
  assumes "pool_ok p" and "is_live p h"
  shows "pool_ok (p\<lparr>free_list := h # free_list p\<rparr>)"
  using assms by (auto simp: pool_ok_def is_live_def)

subsection \<open>Facts about views\<close>

lemma read_view_whole:
  assumes "pool_ok (s q)" and "is_live (s q) h"
  shows "read_view s \<lparr>view_pool = q, view_slot = h,
            view_size = unat (n_properties_per_slot (s q))\<rparr> = slots (s q) ! h"
  using assms by (simp add: read_view_def pool_ok_nth is_live_def)

lemma write_view_slots:
  "slots (write_view s v xs q) =
     (if q = view_pool v
      then (slots (s q))[view_slot v := xs @ drop (length xs) (slots (s q) ! view_slot v)]
      else slots (s q))"
  by (simp add: write_view_def)

lemma write_view_free_list [simp]: "free_list (write_view s v xs q) = free_list (s q)"
  by (simp add: write_view_def)

lemma write_view_count [simp]:
  "n_properties_per_slot (write_view s v xs q) = n_properties_per_slot (s q)"
  by (simp add: write_view_def)

lemma write_view_is_live [simp]: "is_live (write_view s v xs q) h = is_live (s q) h"
  by (simp add: is_live_def write_view_slots)

lemma write_view_pool_ok:
  assumes "pool_ok (s q)" and "length xs \<le> unat (n_properties_per_slot (s (view_pool v)))"
  shows "pool_ok (write_view s v xs q)"
proof (cases "q = view_pool v")
  case True
  have "length ((slots (s q))[view_slot v := xs @ drop (length xs) (slots (s q) ! view_slot v)] ! i) =
          unat (n_properties_per_slot (s q))"
    if "i < length (slots (s q))" for i
    using that assms True by (cases "i = view_slot v") (auto simp: pool_ok_nth)
  with assms True show ?thesis
    by (simp add: pool_ok_nth write_view_slots)
next
  case False
  with assms show ?thesis
    by (simp add: pool_ok_nth write_view_slots)
qed

lemma read_write_view_same:
  assumes "view_slot v < length (slots (s (view_pool v)))" and "length xs = view_size v"
  shows "read_view (write_view s v xs) v = xs"
  using assms by (simp add: read_view_def write_view_slots)

lemma read_write_view_other:
  assumes "(view_pool w, view_slot w) \<noteq> (view_pool v, view_slot v)"
  shows "read_view (write_view s v xs) w = read_view s w"
  using assms by (auto simp: read_view_def write_view_slots)

lemma pool_get_properties_write_view [simp]:
  "pool_get_properties (write_view s v xs) q h = pool_get_properties s q h"
  by (simp add: pool_get_properties_def split: Handle.splits)

lemma get_properties_const_write_view [simp]:
  "get_properties_const (write_view s v xs) P = get_properties_const s P"
  by (simp add: get_properties_const_def)

subsection \<open>Facts about the accessors\<close>

lemma get_properties_no_pool:
  assumes "property_pool P = None"
  shows "get_properties P s = (Inl ExcInternalError, P, s)"
  using assms by (simp add: get_properties_def)

lemma get_properties_live:
  assumes "property_pool P = Some q" and "properties P = Slot h" and "is_live (s q) h"
  shows "get_properties P s =
           (Inr \<lparr>view_pool = q, view_slot = h,
                 view_size = unat (n_properties_per_slot (s q))\<rparr>, P, s)"
  using assms by (simp add: get_properties_def pool_get_properties_def)

lemma get_properties_lazy:
  assumes "property_pool P = Some q" and "properties P = invalid_handle"
    and "pool_ok (s q)"
  shows "\<exists>h p'. allocate_properties_array (s q) = (Slot h, p') \<and>
           \<not> is_live (s q) h \<and> is_live p' h \<and>
           get_properties P s =
             (Inr \<lparr>view_pool = q, view_slot = h,
                   view_size = unat (n_properties_per_slot (s q))\<rparr>,
              P\<lparr>properties := Slot h\<rparr>, s(q := p'))"
proof -
  obtain a p' where alloc: "allocate_properties_array (s q) = (a, p')"
    by (cases "allocate_properties_array (s q)")
  from allocate_fresh [OF assms(3) alloc] obtain h
    where h: "a = Slot h" "\<not> is_live (s q) h" "is_live p' h" by blast
  from alloc have "n_properties_per_slot p' = n_properties_per_slot (s q)"
    by (rule allocate_count)
  with assms alloc h show ?thesis
    by (simp add: get_properties_def pool_get_properties_def)
qed

lemma get_properties_const_live:
  assumes "property_pool P = Some q" and "properties P = Slot h" and "is_live (s q) h"
  shows "get_properties_const s P =
           Inr \<lparr>view_pool = q, view_slot = h,
                view_size = unat (n_properties_per_slot (s q))\<rparr>"
  using assms by (simp add: get_properties_const_def has_properties_def pool_get_properties_def)

lemma get_properties_const_Inr:
  assumes "get_properties_const s P = Inr v"
  shows "\<exists>q h. property_pool P = Some q \<and> properties P = Slot h \<and> is_live (s q) h \<and>
           v = \<lparr>view_pool = q, view_slot = h,
                view_size = unat (n_properties_per_slot (s q))\<rparr>"
  using assms
  by (auto simp: get_properties_const_def has_properties_def pool_get_properties_def
        split: if_splits Handle.splits)

lemma particle_ok_live:
  assumes "particle_ok s P" and "property_pool P = Some q" and "properties P = Slot h"
  shows "pool_ok (s q)" and "is_live (s q) h"
  using assms by (simp_all add: particle_ok_def)

lemma example_particles_ok:
  "particle_ok example_store owning_particle"
  "particle_ok example_store bound_particle"
  "particle_ok example_store unbound_particle"
  by (simp_all add: particle_ok_def pool_ok_def is_live_def example_store_def
        pool_of_two_def owning_particle_def bound_particle_def unbound_particle_def)

subsection \<open>Facts about save and load\<close>

lemma get_properties_const_fields [simp]:
  "get_properties_const s (P\<lparr>location := l\<rparr>) = get_properties_const s P"
  "get_properties_const s (P\<lparr>reference_location := r\<rparr>) = get_properties_const s P"
  "get_properties_const s (P\<lparr>id := i\<rparr>) = get_properties_const s P"
  by (simp_all add: get_properties_const_def has_properties_def)

lemma particle_ok_fields [simp]:
  "particle_ok s (P\<lparr>location := l\<rparr>) = particle_ok s P"
  "particle_ok s (P\<lparr>reference_location := r\<rparr>) = particle_ok s P"
  "particle_ok s (P\<lparr>id := i\<rparr>) = particle_ok s P"
  by (simp_all add: particle_ok_def split: option.splits)

lemma property_values_live:
  assumes "property_pool P = Some q" and "properties P = Slot h"
    and "pool_ok (s q)" and "is_live (s q) h"
  shows "property_values s P = slots (s q) ! h"
    and "length (property_values s P) = unat (n_properties_per_slot (s q))"
  using assms
  by (simp_all add: property_values_def get_properties_const_live [where s = s]
        read_view_whole [where s = s] pool_ok_nth is_live_def)

lemma property_values_none:
  assumes "\<not> has_properties P"
  shows "property_values s P = []"
  using assms by (simp add: property_values_def get_properties_const_def)

lemma save_without_properties:
  assumes "\<not> has_properties P"
  shows "save P s ar =
           (Inr (),
            ar @ [Coordinates (location P), Coordinates (reference_location P),
                  Index (id P), Unsigned 0])"
  using assms by (auto simp: save_def has_properties_def)

lemma save_with_properties:
  assumes "property_pool P = Some q" and "properties P = Slot h"
    and "pool_ok (s q)" and "is_live (s q) h"
  shows "save P s ar =
           (Inr (),
            ar @ [Coordinates (location P), Coordinates (reference_location P),
                  Index (id P), Unsigned (n_properties_per_slot (s q))] @
            (if 0 < n_properties_per_slot (s q) then [Doubles (slots (s q) ! h)]
             else []))"
  using assms
  by (simp add: save_def get_properties_const_live [where s = s]
        read_view_whole [where s = s] pool_ok_nth is_live_def)

text \<open>
  The non-const accessor on a well-formed particle with a pool: it succeeds, the
  particle owns a live slot afterwards, and a slot it owned before is kept.
\<close>

lemma get_properties_bound:
  assumes "particle_ok s P" and "property_pool P = Some q"
  shows "\<exists>h s'. get_properties P s =
             (Inr \<lparr>view_pool = q, view_slot = h,
                   view_size = unat (n_properties_per_slot (s q))\<rparr>,
              P\<lparr>properties := Slot h\<rparr>, s') \<and>
           is_live (s' q) h \<and> pool_ok (s' q) \<and>
           n_properties_per_slot (s' q) = n_properties_per_slot (s q) \<and>
           (properties P \<noteq> invalid_handle \<longrightarrow> properties P = Slot h \<and> s' = s) \<and>
           (properties P = invalid_handle \<longrightarrow>
              s' = s(q := snd (allocate_properties_array (s q))) \<and>
              fst (allocate_properties_array (s q)) = Slot h \<and> \<not> is_live (s q) h)"
proof (cases "properties P")
  case invalid_handle
  from assms have ok: "pool_ok (s q)" by (simp add: particle_ok_def)
  from get_properties_lazy [where s = s, OF assms(2) invalid_handle ok] obtain h p'
    where hp: "allocate_properties_array (s q) = (Slot h, p')" "\<not> is_live (s q) h"
      "is_live p' h"
      "get_properties P s =
         (Inr \<lparr>view_pool = q, view_slot = h,
               view_size = unat (n_properties_per_slot (s q))\<rparr>,
          P\<lparr>properties := Slot h\<rparr>, s(q := p'))"
    by blast
  from allocate_pool_ok [OF ok hp(1)] allocate_count [OF hp(1)] hp invalid_handle
  show ?thesis by simp
next
  case (Slot h)
  from particle_ok_live [OF assms Slot] get_properties_live [where s = s, OF assms(2) Slot] Slot
  show ?thesis by simp
qed

lemma load_header:
  "load P s (Coordinates l # Coordinates r # Index i # Unsigned n # ar) =
     (if 0 < n then
        (case get_properties (P\<lparr>location := l, reference_location := r, id := i\<rparr>) s of
           (Inl e, P1, s1) \<Rightarrow> (Inl e, P1, s1, ar)
         | (Inr properties_view, P1, s1) \<Rightarrow>
             if view_size properties_view \<noteq> unat n then
               (Inl (ExcMessage (size_mismatch_message (unat n) (view_size properties_view))),
                P1, s1, ar)
             else
               (case get_properties P1 s1 of
                  (Inl e, P2, s2) \<Rightarrow> (Inl e, P2, s2, ar)
                | (Inr data, P2, s2) \<Rightarrow>
                    (case read_array (unat n) ar of
                       Inl e \<Rightarrow> (Inl e, P2, s2, ar)
                     | Inr (ds, rest) \<Rightarrow> (Inr (), P2, write_view s2 data ds, rest))))
      else (Inr (), P\<lparr>location := l, reference_location := r, id := i\<rparr>, s, ar))"
  by (simp add: load_def read_point_def read_index_def read_unsigned_def)

text \<open>Loading a record whose count is the pool's and whose array has that length.\<close>

lemma load_with_properties:
  assumes "particle_ok t Q" and "property_pool Q = Some q"
    and "0 < n" and "n = n_properties_per_slot (t q)" and "length ds = unat n"
  shows "\<exists>h t'.
           load Q t (Coordinates l # Coordinates r # Index i # Unsigned n # Doubles ds # rest) =
             (Inr (),
              Q\<lparr>location := l, reference_location := r, id := i, properties := Slot h\<rparr>,
              t', rest) \<and>
           property_values t'
             (Q\<lparr>location := l, reference_location := r, id := i, properties := Slot h\<rparr>) = ds \<and>
           particle_ok t'
             (Q\<lparr>location := l, reference_location := r, id := i, properties := Slot h\<rparr>)"
proof -
  let ?Q = "Q\<lparr>location := l, reference_location := r, id := i\<rparr>"
  have ok: "particle_ok t ?Q" and q: "property_pool ?Q = Some q"
    using assms by simp_all
  from get_properties_bound [OF ok q] obtain h t1
    where g: "get_properties ?Q t =
                (Inr \<lparr>view_pool = q, view_slot = h,
                      view_size = unat (n_properties_per_slot (t q))\<rparr>,
                 ?Q\<lparr>properties := Slot h\<rparr>, t1)"
      and live: "is_live (t1 q) h" and pok: "pool_ok (t1 q)"
      and cnt: "n_properties_per_slot (t1 q) = n_properties_per_slot (t q)"
    by blast
  let ?Q1 = "?Q\<lparr>properties := Slot h\<rparr>"
  let ?v = "\<lparr>view_pool = q, view_slot = h,
             view_size = unat (n_properties_per_slot (t q))\<rparr>"
  have q1: "property_pool ?Q1 = Some q" and h1: "properties ?Q1 = Slot h"
    using assms(2) by simp_all
  from get_properties_live [where s = t1, OF q1 h1 live] cnt
  have g2: "get_properties ?Q1 t1 = (Inr ?v, ?Q1, t1)" by simp
  have ld: "load Q t (Coordinates l # Coordinates r # Index i # Unsigned n # Doubles ds # rest) =
          (Inr (), ?Q1, write_view t1 ?v ds, rest)"
    using g g2 assms(3,4,5) by (simp add: load_header read_array_def)
  from get_properties_const_live [where s = t1, OF q1 h1 live] cnt
  have gc: "get_properties_const t1 ?Q1 = Inr ?v" by simp
  from live have "view_slot ?v < length (slots (t1 (view_pool ?v)))"
    by (simp add: is_live_def)
  then have "read_view (write_view t1 ?v ds) ?v = ds"
    by (rule read_write_view_same) (simp add: assms(4,5))
  with gc have vals: "property_values (write_view t1 ?v ds) ?Q1 = ds"
    by (simp add: property_values_def)
  have "pool_ok (write_view t1 ?v ds q)"
    by (rule write_view_pool_ok [where s = t1, OF pok]) (simp add: assms(4,5) cnt)
  with live have "particle_ok (write_view t1 ?v ds) ?Q1"
    using assms(2) by (simp add: particle_ok_def)
  with ld vals show ?thesis by blast
qed

subsection \<open>Facts about set_property_pool\<close>

lemma set_property_pool_without_properties:
  assumes "\<not> has_properties P"
  shows "set_property_pool q' P s =
           (Inr (), P\<lparr>property_pool := Some q', properties := invalid_handle\<rparr>, s)"
  using assms by (auto simp: set_property_pool_def release_and_rebind_def has_properties_def)

text \<open>
  The steps of \<^verbatim>\<open>set_property_pool\<close> on a well-formed particle that owns slot \<open>h\<close>
  of pool \<open>q\<close>, up to the copy: the allocation in the new pool \<open>q'\<close> and the two views.
\<close>

lemma set_property_pool_steps:
  assumes ok: "particle_ok s P" and q: "property_pool P = Some q"
    and h: "properties P = Slot h" and ok': "pool_ok (s q')"
  shows "\<exists>h' p1.
           allocate_properties_array (s q') = (Slot h', p1) \<and>
           \<not> is_live (s q') h' \<and> is_live p1 h' \<and> pool_ok p1 \<and>
           n_properties_per_slot p1 = n_properties_per_slot (s q') \<and>
           slots p1 ! h' = replicate (unat (n_properties_per_slot (s q'))) 0 \<and>
           is_live ((s(q' := p1)) q) h \<and> pool_ok ((s(q' := p1)) q) \<and>
           n_properties_per_slot ((s(q' := p1)) q) = n_properties_per_slot (s q) \<and>
           slots ((s(q' := p1)) q) ! h = slots (s q) ! h \<and>
           (q = q' \<longrightarrow> h' \<noteq> h) \<and>
           set_property_pool q' P s =
             release_and_rebind q' (Slot h') P
               (copy_view (s(q' := p1))
                  \<lparr>view_pool = q, view_slot = h,
                   view_size = unat (n_properties_per_slot (s q))\<rparr>
                  \<lparr>view_pool = q', view_slot = h',
                   view_size = unat (n_properties_per_slot (s q'))\<rparr>)"
proof -
  note live = particle_ok_live [OF ok q h]
  obtain a p1 where alloc: "allocate_properties_array (s q') = (a, p1)"
    by (cases "allocate_properties_array (s q')")
  from allocate_fresh [OF ok' alloc] obtain h'
    where a: "a = Slot h'" and fresh: "\<not> is_live (s q') h'" and live': "is_live p1 h'"
      and zero: "slots p1 ! h' = replicate (unat (n_properties_per_slot (s q'))) 0"
    by blast
  note ok1 = allocate_pool_ok [OF ok' alloc]
  note cnt = allocate_count [OF alloc]
  let ?s1 = "s(q' := p1)"
  have live1: "is_live (?s1 q) h" and slot1: "slots (?s1 q) ! h = slots (s q) ! h"
    and okq: "pool_ok (?s1 q)"
    and cnt1: "n_properties_per_slot (?s1 q) = n_properties_per_slot (s q)"
    using live allocate_keeps [OF ok' alloc] ok1 cnt by (cases "q = q'"; simp)+
  have neq: "q = q' \<longrightarrow> h' \<noteq> h"
    using live(2) fresh by auto
  from get_properties_live [where s = ?s1, OF q h live1] cnt1
  have g: "get_properties P ?s1 =
             (Inr \<lparr>view_pool = q, view_slot = h,
                   view_size = unat (n_properties_per_slot (s q))\<rparr>, P, ?s1)"
    by simp
  have pg: "pool_get_properties ?s1 q' (Slot h') =
              Inr \<lparr>view_pool = q', view_slot = h',
                   view_size = unat (n_properties_per_slot (s q'))\<rparr>"
    using live' cnt by (simp add: pool_get_properties_def)
  have "set_property_pool q' P s =
             release_and_rebind q' (Slot h') P
               (copy_view ?s1
                  \<lparr>view_pool = q, view_slot = h,
                   view_size = unat (n_properties_per_slot (s q))\<rparr>
                  \<lparr>view_pool = q', view_slot = h',
                   view_size = unat (n_properties_per_slot (s q'))\<rparr>)"
    using q h alloc a g pg by (simp add: set_property_pool_def)
  with alloc a fresh live' ok1 cnt zero live1 okq cnt1 slot1 neq show ?thesis
    by blast
qed

text \<open>
  \<^verbatim>\<open>set_property_pool\<close> on a well-formed particle that owns a slot, for a well-formed
  new pool of any size: the call succeeds, the particle moves to a slot that was not live
  in the new pool, and its old slot is released. The new view shows as many doubles as the
  new pool has per slot: the old values from its start on, then what the allocation left.
\<close>

lemma set_property_pool_rebinds:
  assumes ok: "particle_ok s P" and q: "property_pool P = Some q"
    and h: "properties P = Slot h" and ok': "pool_ok (s q')"
  shows "\<exists>h' s'.
           set_property_pool q' P s =
             (Inr (), P\<lparr>property_pool := Some q', properties := Slot h'\<rparr>, s') \<and>
           fst (allocate_properties_array (s q')) = Slot h' \<and>
           \<not> is_live (s q') h' \<and> (q = q' \<longrightarrow> h' \<noteq> h) \<and>
           is_live (s' q') h' \<and> \<not> is_live (s' q) h \<and>
           (unat (n_properties_per_slot (s q)) \<le> unat (n_properties_per_slot (s q')) \<longrightarrow>
              particle_ok s' (P\<lparr>property_pool := Some q', properties := Slot h'\<rparr>)) \<and>
           property_values s' (P\<lparr>property_pool := Some q', properties := Slot h'\<rparr>) =
             take (unat (n_properties_per_slot (s q')))
               (property_values s P @
                replicate (unat (n_properties_per_slot (s q')) -
                           unat (n_properties_per_slot (s q))) 0)"
proof -
  note live = particle_ok_live [OF ok q h]
  note vals = property_values_live [where s = s, OF q h live]
  from set_property_pool_steps [OF ok q h ok'] obtain h' p1
    where alloc: "allocate_properties_array (s q') = (Slot h', p1)"
      and fresh: "\<not> is_live (s q') h'" and live': "is_live p1 h'" and ok1: "pool_ok p1"
      and cnt: "n_properties_per_slot p1 = n_properties_per_slot (s q')"
      and zero: "slots p1 ! h' = replicate (unat (n_properties_per_slot (s q'))) 0"
      and live1: "is_live ((s(q' := p1)) q) h" and okq: "pool_ok ((s(q' := p1)) q)"
      and cnt1: "n_properties_per_slot ((s(q' := p1)) q) = n_properties_per_slot (s q)"
      and slot1: "slots ((s(q' := p1)) q) ! h = slots (s q) ! h"
      and neq: "q = q' \<longrightarrow> h' \<noteq> h"
      and run: "set_property_pool q' P s =
             release_and_rebind q' (Slot h') P
               (copy_view (s(q' := p1))
                  \<lparr>view_pool = q, view_slot = h,
                   view_size = unat (n_properties_per_slot (s q))\<rparr>
                  \<lparr>view_pool = q', view_slot = h',
                   view_size = unat (n_properties_per_slot (s q'))\<rparr>)"
    by blast
  let ?s1 = "s(q' := p1)"
  let ?old = "\<lparr>view_pool = q, view_slot = h,
               view_size = unat (n_properties_per_slot (s q))\<rparr>"
  let ?new = "\<lparr>view_pool = q', view_slot = h',
               view_size = unat (n_properties_per_slot (s q'))\<rparr>"
  let ?xs = "property_values s P"
  let ?P' = "P\<lparr>property_pool := Some q', properties := Slot h'\<rparr>"
  from read_view_whole [where s = ?s1, OF okq live1] cnt1 slot1 vals(1)
  have rd: "read_view ?s1 ?old = ?xs" by simp
  let ?s2 = "write_view ?s1 ?new ?xs"
  from rd have cp: "copy_view ?s1 ?old ?new = ?s2"
    by (simp add: copy_view_def)
  have live2: "is_live (?s2 q) h"
    using live1 by simp
  let ?s3 = "?s2(q := (?s2 q)\<lparr>free_list := h # free_list (?s2 q)\<rparr>)"
  from deallocate_live [OF live2] q h
  have rb: "release_and_rebind q' (Slot h') P ?s2 = (Inr (), ?P', ?s3)"
    by (simp add: release_and_rebind_def)
  from run cp rb have res: "set_property_pool q' P s = (Inr (), ?P', ?s3)"
    by simp
  have live3: "is_live (?s3 q') h'"
    using live' neq by (cases "q = q'") (simp_all add: is_live_def write_view_slots)
  have dead: "\<not> is_live (?s3 q) h"
    by (simp add: is_live_def)
  have cnt3: "n_properties_per_slot (?s3 q') = n_properties_per_slot (s q')"
    using cnt by simp
  have inr: "h' < length (slots p1)"
    using live' by (simp add: is_live_def)
  have "slots (?s3 q') ! h' = ?xs @ drop (length ?xs) (slots p1 ! h')"
    using inr by (simp add: write_view_slots)
  with zero vals(2) have slot3:
    "slots (?s3 q') ! h' =
       ?xs @ replicate (unat (n_properties_per_slot (s q')) -
                        unat (n_properties_per_slot (s q))) 0"
    by simp
  have q3: "property_pool ?P' = Some q'" and h3: "properties ?P' = Slot h'"
    by simp_all
  from get_properties_const_live [where s = ?s3, OF q3 h3 live3] cnt3
  have gc: "get_properties_const ?s3 ?P' = Inr ?new"
    by simp
  have "read_view ?s3 ?new =
          take (unat (n_properties_per_slot (s q'))) (slots (?s3 q') ! h')"
    by (simp add: read_view_def)
  with gc slot3 have pv: "property_values ?s3 ?P' =
       take (unat (n_properties_per_slot (s q')))
         (?xs @ replicate (unat (n_properties_per_slot (s q')) -
                           unat (n_properties_per_slot (s q))) 0)"
    by (simp add: property_values_def)
  have pok: "particle_ok ?s3 ?P'"
    if le: "unat (n_properties_per_slot (s q)) \<le> unat (n_properties_per_slot (s q'))"
  proof -
    have len: "length ?xs \<le> unat (n_properties_per_slot (?s1 (view_pool ?new)))"
      using vals(2) le cnt by simp
    have ok2': "pool_ok (?s2 q')"
      by (rule write_view_pool_ok [where s = ?s1]) (use ok1 len in simp_all)
    have ok2: "pool_ok (?s2 q)"
      by (rule write_view_pool_ok [where s = ?s1, OF okq len])
    have ok3: "pool_ok (?s3 q')"
    proof (cases "q' = q")
      case True
      then have "?s3 q' = (?s2 q)\<lparr>free_list := h # free_list (?s2 q)\<rparr>"
        by (simp only: fun_upd_same)
      with deallocate_pool_ok [OF ok2 live2] show ?thesis
        by (simp only:)
    next
      case False
      then have "?s3 q' = ?s2 q'"
        by (rule fun_upd_other)
      with ok2' show ?thesis
        by (simp only:)
    qed
    with live3 show ?thesis
      by (simp add: particle_ok_def)
  qed
  from res alloc fresh neq live3 dead pok pv show ?thesis
    by (intro exI [of _ h'] exI [of _ ?s3]) simp
qed

text \<open>
  A failed \<^verbatim>\<open>set_property_pool\<close> has released and rebound nothing: it returns the
  particle it was given, and a store that differs from the one it was given by the
  allocation in the new pool only.
\<close>

lemma set_property_pool_failure:
  assumes "set_property_pool q' P s = (Inl e, P', s')"
  shows "P' = P" and "s' = s(q' := snd (allocate_properties_array (s q')))"
  using assms
  by (auto simp: set_property_pool_def release_and_rebind_def get_properties_def
        pool_get_properties_def deallocate_properties_array_def copy_view_def
        split: if_splits prod.splits sum.splits option.splits Handle.splits)

subsection \<open>Facts about ownership\<close>

lemma owned_slot_live:
  assumes "particle_ok s R" and "(p, j) \<in> set (owned_slot R)"
  shows "property_pool R = Some p" and "properties R = Slot j"
    and "pool_ok (s p)" and "is_live (s p) j"
  using assms
  by (auto simp: owned_slot_def particle_ok_def split: option.splits Handle.splits)

lemma owned_slot_fields [simp]:
  "owned_slot (P\<lparr>location := l\<rparr>) = owned_slot P"
  "owned_slot (P\<lparr>reference_location := r\<rparr>) = owned_slot P"
  "owned_slot (P\<lparr>id := i\<rparr>) = owned_slot P"
  by (simp_all add: owned_slot_def split: option.splits)

lemma owned_slot_owning:
  assumes "property_pool P = Some q" and "properties P = Slot h"
  shows "owned_slot P = [(q, h)]"
  using assms by (simp add: owned_slot_def)

lemma owned_slot_none:
  assumes "\<not> has_properties P"
  shows "owned_slot P = []"
  using assms by (auto simp: owned_slot_def has_properties_def split: option.splits Handle.splits)

text \<open>
  A write through a view changes the values of no particle that owns another slot, and
  keeps every particle well-formed when the doubles fit into the slot.
\<close>

lemma write_view_other_values:
  assumes "(view_pool v, view_slot v) \<notin> set (owned_slot R)"
  shows "property_values (write_view s v xs) R = property_values s R"
proof (cases "get_properties_const s R")
  case (Inl e)
  then show ?thesis by (simp add: property_values_def)
next
  case (Inr w)
  from get_properties_const_Inr [OF Inr] obtain p j
    where "property_pool R = Some p" "properties R = Slot j"
      "w = \<lparr>view_pool = p, view_slot = j,
            view_size = unat (n_properties_per_slot (s p))\<rparr>"
    by blast
  with assms have "(view_pool w, view_slot w) \<noteq> (view_pool v, view_slot v)"
    by (auto simp: owned_slot_def)
  from read_write_view_other [OF this] Inr show ?thesis
    by (simp add: property_values_def)
qed

lemma write_view_particle_ok:
  assumes "particle_ok s R"
    and "length xs \<le> unat (n_properties_per_slot (s (view_pool v)))"
  shows "particle_ok (write_view s v xs) R"
  using assms
  by (auto simp: particle_ok_def write_view_pool_ok split: option.splits Handle.splits)

text \<open>An allocation in a pool changes no well-formed particle and none of its values.\<close>

lemma allocate_particle_ok:
  assumes "particle_ok s R" and "pool_ok (s q)"
    and "allocate_properties_array (s q) = (a, p1)"
  shows "particle_ok (s(q := p1)) R"
    and "property_values (s(q := p1)) R = property_values s R"
proof -
  note keep = allocate_keeps [OF assms(2,3)]
  note ok1 = allocate_pool_ok [OF assms(2,3)]
  note cnt = allocate_count [OF assms(3)]
  show "particle_ok (s(q := p1)) R"
    using assms(1) keep(1) ok1
    by (auto simp: particle_ok_def split: option.splits Handle.splits)
  show "property_values (s(q := p1)) R = property_values s R"
  proof (cases "owned_slot R")
    case Nil
    then have "\<not> has_properties R"
      by (auto simp: owned_slot_def has_properties_def split: option.splits Handle.splits)
    then show ?thesis by (simp add: property_values_none)
  next
    case (Cons x xs)
    then obtain p j where "(p, j) \<in> set (owned_slot R)"
      by (cases x) auto
    note o = owned_slot_live [OF assms(1) this]
    have l1: "is_live ((s(q := p1)) p) j" and sl: "slots ((s(q := p1)) p) ! j = slots (s p) ! j"
      and k1: "pool_ok ((s(q := p1)) p)"
      using o(3,4) keep ok1 by (cases "p = q"; simp)+
    from property_values_live(1) [where s = "s(q := p1)", OF o(1,2) k1 l1]
      property_values_live(1) [where s = s, OF o] sl
    show ?thesis by simp
  qed
qed

subsection \<open>Facts about copying\<close>

lemma copy_particle_without_properties:
  assumes "\<not> has_properties P"
  shows "copy_particle P s = (Inr (P\<lparr>properties := invalid_handle\<rparr>), s)"
  using assms by (simp add: copy_particle_def)

lemma copy_particle_owning:
  assumes ok: "particle_ok s P" and q: "property_pool P = Some q"
    and h: "properties P = Slot h"
  shows "\<exists>h' p1.
           allocate_properties_array (s q) = (Slot h', p1) \<and>
           \<not> is_live (s q) h' \<and> is_live p1 h' \<and>
           copy_particle P s =
             (Inr (P\<lparr>properties := Slot h'\<rparr>),
              write_view (s(q := p1))
                \<lparr>view_pool = q, view_slot = h',
                 view_size = unat (n_properties_per_slot (s q))\<rparr>
                (property_values s P))"
proof -
  note live = particle_ok_live [OF ok q h]
  note vals = property_values_live [where s = s, OF q h live]
  obtain a p1 where alloc: "allocate_properties_array (s q) = (a, p1)"
    by (cases "allocate_properties_array (s q)")
  from allocate_fresh [OF live(1) alloc] obtain h'
    where a: "a = Slot h'" and fresh: "\<not> is_live (s q) h'" and live': "is_live p1 h'"
    by blast
  note ok1 = allocate_pool_ok [OF live(1) alloc]
  note cnt = allocate_count [OF alloc]
  note keep = allocate_keeps [OF live(1) alloc live(2)]
  let ?s1 = "s(q := p1)"
  let ?old = "\<lparr>view_pool = q, view_slot = h,
               view_size = unat (n_properties_per_slot (s q))\<rparr>"
  let ?new = "\<lparr>view_pool = q, view_slot = h',
               view_size = unat (n_properties_per_slot (s q))\<rparr>"
  have hp: "has_properties P"
    using q h by (simp add: has_properties_def)
  have pg: "pool_get_properties ?s1 q (Slot h') = Inr ?new"
    using live' cnt by (simp add: pool_get_properties_def)
  have l1: "is_live (?s1 q) h" and k1: "pool_ok (?s1 q)"
    using keep(1) ok1 by simp_all
  from get_properties_const_live [where s = ?s1, OF q h l1] cnt
  have gc: "get_properties_const ?s1 P = Inr ?old" by simp
  from read_view_whole [where s = ?s1, OF k1 l1] cnt keep(2) vals(1)
  have rd: "read_view ?s1 ?old = property_values s P" by simp
  have cp: "copy_view ?s1 ?old ?new = write_view ?s1 ?new (property_values s P)"
    using rd by (simp add: copy_view_def)
  have "copy_particle P s =
          (Inr (P\<lparr>properties := Slot h'\<rparr>), write_view ?s1 ?new (property_values s P))"
    using hp q alloc a pg gc cp by (simp add: copy_particle_def)
  with alloc a fresh live' show ?thesis by blast
qed

text \<open>
  The copy of a particle among uniquely owning particles: what it returns, and what it
  leaves of the others.
\<close>

lemma copy_particle_unique:
  assumes u: "unique_owners s Ps" and mem: "P \<in> set Ps"
  shows "\<exists>Q s'.
           copy_particle P s = (Inr Q, s') \<and>
           location Q = location P \<and> reference_location Q = reference_location P \<and>
           id Q = id P \<and> property_pool Q = property_pool P \<and>
           has_properties Q = has_properties P \<and>
           (has_properties P \<longrightarrow> properties Q \<noteq> properties P) \<and>
           (\<forall>R \<in> set Ps. set (owned_slot Q) \<inter> set (owned_slot R) = {}) \<and>
           property_values s' Q = property_values s P \<and>
           (\<forall>R \<in> set Ps. property_values s' R = property_values s R) \<and>
           unique_owners s' (Q # Ps)"
proof (cases "has_properties P")
  case False
  from u mem have ok: "particle_ok s P"
    by (simp add: unique_owners_def)
  let ?Q = "P\<lparr>properties := invalid_handle\<rparr>"
  have nq: "\<not> has_properties ?Q"
    by (simp add: has_properties_def)
  have okq: "particle_ok s ?Q"
    using ok by (simp add: particle_ok_def split: option.splits)
  have "unique_owners s (?Q # Ps)"
    using u okq by (simp add: unique_owners_def owned_slot_none [OF nq])
  with False nq show ?thesis
    by (simp add: copy_particle_without_properties property_values_none
          owned_slot_none [OF nq])
next
  case True
  from u mem have ok: "particle_ok s P"
    by (simp add: unique_owners_def)
  from True obtain q h where q: "property_pool P = Some q" and h: "properties P = Slot h"
    by (cases "properties P") (auto simp: has_properties_def)
  note live = particle_ok_live [OF ok q h]
  note vals = property_values_live [where s = s, OF q h live]
  from copy_particle_owning [OF ok q h] obtain h' p1
    where alloc: "allocate_properties_array (s q) = (Slot h', p1)"
      and fresh: "\<not> is_live (s q) h'" and live': "is_live p1 h'"
      and cp: "copy_particle P s =
             (Inr (P\<lparr>properties := Slot h'\<rparr>),
              write_view (s(q := p1))
                \<lparr>view_pool = q, view_slot = h',
                 view_size = unat (n_properties_per_slot (s q))\<rparr>
                (property_values s P))"
    by blast
  let ?s1 = "s(q := p1)"
  let ?new = "\<lparr>view_pool = q, view_slot = h',
               view_size = unat (n_properties_per_slot (s q))\<rparr>"
  let ?xs = "property_values s P"
  let ?s' = "write_view ?s1 ?new ?xs"
  let ?Q = "P\<lparr>properties := Slot h'\<rparr>"
  note ok1 = allocate_pool_ok [OF live(1) alloc]
  note cnt = allocate_count [OF alloc]
  have neq: "h' \<noteq> h"
    using live(2) fresh by auto
  have notin: "(q, h') \<notin> set (owned_slot R)" if "R \<in> set Ps" for R
  proof
    assume "(q, h') \<in> set (owned_slot R)"
    moreover from u that have "particle_ok s R"
      by (simp add: unique_owners_def)
    ultimately have "is_live (s q) h'"
      by (rule owned_slot_live(4) [rotated])
    with fresh show False by simp
  qed
  have len: "length ?xs \<le> unat (n_properties_per_slot (?s1 (view_pool ?new)))"
    using vals(2) cnt by simp
  have others_ok: "particle_ok ?s' R" if "R \<in> set Ps" for R
  proof -
    from u that have "particle_ok s R"
      by (simp add: unique_owners_def)
    from allocate_particle_ok(1) [OF this live(1) alloc]
    show ?thesis
      by (rule write_view_particle_ok [where s = ?s1 and v = ?new, OF _ len])
  qed
  have others_values: "property_values ?s' R = property_values s R" if "R \<in> set Ps" for R
  proof -
    from u that have okr: "particle_ok s R"
      by (simp add: unique_owners_def)
    from notin [OF that]
    have "property_values ?s' R = property_values ?s1 R"
      by (intro write_view_other_values) simp
    with allocate_particle_ok(2) [OF okr live(1) alloc] show ?thesis
      by simp
  qed
  have q1: "property_pool ?Q = Some q" and h1: "properties ?Q = Slot h'"
    using q by simp_all
  have k': "pool_ok (?s' q)"
    by (rule write_view_pool_ok [where s = ?s1]) (use ok1 len in simp_all)
  have l': "is_live (?s' q) h'"
    using live' by simp
  have okq: "particle_ok ?s' ?Q"
    using q k' l' by (simp add: particle_ok_def)
  have gq: "get_properties_const ?s' ?Q = Inr ?new"
    using get_properties_const_live [where s = ?s', OF q1 h1 l'] cnt by simp
  have "view_slot ?new < length (slots (?s1 (view_pool ?new)))"
    using live' by (simp add: is_live_def)
  then have "read_view ?s' ?new = ?xs"
    by (rule read_write_view_same) (simp add: vals(2))
  with gq have vq: "property_values ?s' ?Q = ?xs"
    by (simp add: property_values_def)
  have oq: "owned_slot ?Q = [(q, h')]"
    using q1 h1 by (rule owned_slot_owning)
  have disj: "\<forall>R \<in> set Ps. set (owned_slot ?Q) \<inter> set (owned_slot R) = {}"
    using notin by (simp add: oq)
  have uq: "unique_owners ?s' (?Q # Ps)"
    using u okq others_ok notin by (auto simp: unique_owners_def oq)
  have hq: "has_properties ?Q"
    using q by (simp add: has_properties_def)
  from cp True hq neq h disj vq others_values uq show ?thesis
    by (intro exI [of _ ?Q] exI [of _ ?s']) simp
qed

text \<open>
  Writing through a particle's view changes that particle's values only, among uniquely
  owning particles.
\<close>

lemma write_own_view:
  assumes "unique_owners s (Q # Ps)" and "get_properties_const s Q = Inr v"
  shows "\<forall>R \<in> set Ps. property_values (write_view s v xs) R = property_values s R"
    and "length xs = view_size v \<Longrightarrow> property_values (write_view s v xs) Q = xs"
proof -
  from get_properties_const_Inr [OF assms(2)] obtain q h
    where q: "property_pool Q = Some q" and h: "properties Q = Slot h"
      and live: "is_live (s q) h"
      and v: "v = \<lparr>view_pool = q, view_slot = h,
                   view_size = unat (n_properties_per_slot (s q))\<rparr>"
    by blast
  have oq: "owned_slot Q = [(q, h)]"
    using q h by (rule owned_slot_owning)
  show "\<forall>R \<in> set Ps. property_values (write_view s v xs) R = property_values s R"
  proof
    fix R assume "R \<in> set Ps"
    with assms(1) have "(q, h) \<notin> set (owned_slot R)"
      by (auto simp: unique_owners_def oq)
    then show "property_values (write_view s v xs) R = property_values s R"
      by (intro write_view_other_values) (simp add: v)
  qed
  assume len: "length xs = view_size v"
  have "view_slot v < length (slots (s (view_pool v)))"
    using live by (simp add: is_live_def v)
  from read_write_view_same [where s = s and v = v, OF this len] assms(2)
  show "property_values (write_view s v xs) Q = xs"
    by (simp add: property_values_def)
qed

section \<open>The claims\<close>

subsection \<open>Access to the properties\<close>

text \<open>
  Claim C1. For a well-formed particle with a bound pool, \<^verbatim>\<open>has_properties\<close> holds
  exactly when the read access \<^verbatim>\<open>get_properties() const\<close> succeeds. With no pool bound
  both the read access and the write access \<^verbatim>\<open>get_properties()\<close> fail with an error.
  With a pool bound and no allocation yet, the write access does not fail: it allocates a
  handle from the pool, after which the particle has properties and the read access
  returns the same view.
\<close>


theorem get_properties_succeeds_iff_has_properties:
  assumes "particle_ok s P"
  shows "(property_pool P \<noteq> None \<longrightarrow>
            (has_properties P \<longleftrightarrow> (\<exists>v. get_properties_const s P = Inr v))) \<and>
         (property_pool P = None \<longrightarrow>
            get_properties_const s P = Inl ExcInternalError \<and>
            get_properties P s = (Inl ExcInternalError, P, s)) \<and>
         (property_pool P \<noteq> None \<and> properties P = invalid_handle \<longrightarrow>
            (\<exists>v h p'. allocate_properties_array (s (the (property_pool P))) = (Slot h, p') \<and>
               get_properties P s =
                 (Inr v, P\<lparr>properties := Slot h\<rparr>, s(the (property_pool P) := p')) \<and>
               has_properties (P\<lparr>properties := Slot h\<rparr>) \<and>
               get_properties_const (s(the (property_pool P) := p'))
                 (P\<lparr>properties := Slot h\<rparr>) = Inr v))"
proof (intro conjI impI)
  assume "property_pool P \<noteq> None"
  then obtain q where q: "property_pool P = Some q" by blast
  show "has_properties P \<longleftrightarrow> (\<exists>v. get_properties_const s P = Inr v)"
  proof
    assume "has_properties P"
    then obtain h where h: "properties P = Slot h"
      by (cases "properties P") (simp_all add: has_properties_def)
    from particle_ok_live(2) [OF assms q h] get_properties_const_live [where s = s, OF q h]
    show "\<exists>v. get_properties_const s P = Inr v" by blast
  next
    assume "\<exists>v. get_properties_const s P = Inr v"
    then show "has_properties P"
      by (auto simp: get_properties_const_def split: if_splits)
  qed
next
  assume "property_pool P = None"
  then show "get_properties_const s P = Inl ExcInternalError"
    and "get_properties P s = (Inl ExcInternalError, P, s)"
    by (simp_all add: get_properties_const_def has_properties_def get_properties_no_pool)
next
  assume a: "property_pool P \<noteq> None \<and> properties P = invalid_handle"
  then obtain q where q: "property_pool P = Some q" by blast
  from assms q have ok: "pool_ok (s q)" by (simp add: particle_ok_def)
  from a have inv: "properties P = invalid_handle" by simp
  from get_properties_lazy [where s = s, OF q inv ok] obtain h p'
    where hp: "allocate_properties_array (s q) = (Slot h, p')" "is_live p' h"
      "get_properties P s =
         (Inr \<lparr>view_pool = q, view_slot = h,
               view_size = unat (n_properties_per_slot (s q))\<rparr>,
          P\<lparr>properties := Slot h\<rparr>, s(q := p'))"
    by blast
  from hp(1) have n: "n_properties_per_slot p' = n_properties_per_slot (s q)"
    by (rule allocate_count)
  have "get_properties_const (s(q := p')) (P\<lparr>properties := Slot h\<rparr>) =
          Inr \<lparr>view_pool = q, view_slot = h,
               view_size = unat (n_properties_per_slot (s q))\<rparr>"
    using q hp(2) n by (simp add: get_properties_const_live [where q = q and h = h])
  with q hp show "\<exists>v h p'. allocate_properties_array (s (the (property_pool P))) = (Slot h, p') \<and>
               get_properties P s =
                 (Inr v, P\<lparr>properties := Slot h\<rparr>, s(the (property_pool P) := p')) \<and>
               has_properties (P\<lparr>properties := Slot h\<rparr>) \<and>
               get_properties_const (s(the (property_pool P) := p'))
                 (P\<lparr>properties := Slot h\<rparr>) = Inr v"
    by (simp add: has_properties_def)
qed

theorem get_properties_succeeds_iff_has_properties_witness:
  "particle_ok example_store owning_particle \<and>
   particle_ok example_store bound_particle \<and>
   particle_ok example_store unbound_particle \<and>
   has_properties owning_particle \<and>
   get_properties_const example_store owning_particle =
     Inr \<lparr>view_pool = 0, view_slot = 0, view_size = 2\<rparr> \<and>
   \<not> has_properties bound_particle \<and>
   get_properties_const example_store bound_particle = Inl ExcInternalError \<and>
   fst (get_properties bound_particle example_store) =
     Inr \<lparr>view_pool = 0, view_slot = 1, view_size = 2\<rparr> \<and>
   get_properties_const example_store unbound_particle = Inl ExcInternalError \<and>
   fst (get_properties unbound_particle example_store) = Inl ExcInternalError"
  using get_properties_succeeds_iff_has_properties [OF example_particles_ok(1)]
    get_properties_succeeds_iff_has_properties [OF example_particles_ok(2)]
    get_properties_succeeds_iff_has_properties [OF example_particles_ok(3)]
  by (simp add: particle_ok_def pool_ok_def has_properties_def get_properties_const_def
        get_properties_def pool_get_properties_def is_live_def
        allocate_properties_array_def example_store_def pool_of_two_def
        owning_particle_def bound_particle_def unbound_particle_def)
subsection \<open>Loading a record without properties\<close>

text \<open>
  Claim C9. Loading a record whose declared property count is zero succeeds, whatever
  the particle and the pool it is bound to: only location, reference location and id are
  assigned; the pool pointer, the handle and the whole store (so every pool) are
  unchanged, hence nothing is allocated, and no size is compared.
\<close>


theorem load_zero_properties:
  "load P s (Coordinates l # Coordinates r # Index i # Unsigned 0 # rest) =
     (Inr (), P\<lparr>location := l, reference_location := r, id := i\<rparr>, s, rest)"
  by (simp add: load_def read_point_def read_index_def read_unsigned_def)

subsection \<open>What save writes\<close>

text \<open>
  Claim C5. For a well-formed particle, \<^verbatim>\<open>save\<close> appends to the archive, in this
  order, the location, the reference location, the id and \<^verbatim>\<open>n_properties\<close> as an
  unsigned integer, and then, if and only if \<^verbatim>\<open>n_properties\<close> is positive, one array:
  the particle's property values, exactly \<^verbatim>\<open>n_properties\<close> doubles. \<^verbatim>\<open>n_properties\<close>
  is the size of the particle's view when it has properties and 0 otherwise.
\<close>

theorem save_layout:
  assumes "particle_ok s P"
  shows "\<exists>n vs.
           save P s ar =
             (Inr (),
              ar @ [Coordinates (location P), Coordinates (reference_location P),
                    Index (id P), Unsigned n] @
              (if 0 < n then [Doubles vs] else [])) \<and>
           length vs = unat n \<and>
           vs = property_values s P \<and>
           (if has_properties P
            then \<exists>v. get_properties_const s P = Inr v \<and> unat n = view_size v
            else n = 0)"
proof (cases "has_properties P")
  case False
  then show ?thesis
    by (simp add: save_without_properties property_values_none)
next
  case True
  then obtain q h where qh: "property_pool P = Some q" "properties P = Slot h"
    by (cases "properties P") (auto simp: has_properties_def)
  note live = particle_ok_live [OF assms qh]
  from save_with_properties [where s = s, OF qh live]
    property_values_live [where s = s, OF qh live]
    get_properties_const_live [where s = s, OF qh live(2)] True
  show ?thesis by simp
qed

theorem save_layout_witness:
  "particle_ok example_store owning_particle \<and>
   save owning_particle example_store [] =
     (Inr (), [Coordinates [1, 2], Coordinates [3, 4], Index 7, Unsigned 2, Doubles [5, 6]]) \<and>
   property_values example_store owning_particle = [5, 6]"
  using save_layout [OF example_particles_ok(1), of "[]"]
  by (simp add: particle_ok_def pool_ok_def is_live_def example_store_def pool_of_two_def
        owning_particle_def save_def get_properties_const_def has_properties_def
        pool_get_properties_def read_view_def property_values_def)

subsection \<open>Loading a record of another size\<close>

text \<open>
  Claim C4, as stated: whenever the declared property count differs from the count
  of the bound pool, \<^verbatim>\<open>load\<close> fails with the size message. It does not when the
  declared count is 0: the particle below is bound to a pool of two properties per slot,
  and loading a record that declares no property succeeds.
\<close>

theorem load_size_mismatch_counterexample:
  "property_pool bound_particle = Some 0 \<and>
   n_properties_per_slot (example_store 0) = 2 \<and>
   load bound_particle example_store
     [Coordinates [1, 2], Coordinates [3, 4], Index 7, Unsigned 0] =
     (Inr (), bound_particle\<lparr>location := [1, 2], reference_location := [3, 4], id := 7\<rparr>,
      example_store, [])"
  by (simp add: load_header bound_particle_def example_store_def pool_of_two_def)

text \<open>
  Claim C4, amended: when the declared property count is positive and differs from the
  count of the pool the (well-formed) particle is bound to, \<^verbatim>\<open>load\<close> fails with the
  message that reports the declared count and the pool's count. At that point location,
  reference location and id are already assigned and the particle owns a slot of the
  pool; the array has not been read.
\<close>

theorem load_size_mismatch:
  assumes "particle_ok s P" and "property_pool P = Some q"
    and "0 < n" and "unat n \<noteq> unat (n_properties_per_slot (s q))"
  shows "\<exists>h s'.
           load P s (Coordinates l # Coordinates r # Index i # Unsigned n # rest) =
             (Inl (ExcMessage
                     (size_mismatch_message (unat n) (unat (n_properties_per_slot (s q))))),
              P\<lparr>location := l, reference_location := r, id := i, properties := Slot h\<rparr>,
              s', rest) \<and>
           is_live (s' q) h"
proof -
  let ?P = "P\<lparr>location := l, reference_location := r, id := i\<rparr>"
  have ok: "particle_ok s ?P" and q: "property_pool ?P = Some q"
    using assms by simp_all
  from get_properties_bound [OF ok q] obtain h s'
    where g: "get_properties ?P s =
                (Inr \<lparr>view_pool = q, view_slot = h,
                      view_size = unat (n_properties_per_slot (s q))\<rparr>,
                 ?P\<lparr>properties := Slot h\<rparr>, s')"
      and live: "is_live (s' q) h"
    by blast
  from g assms(3,4) have
    "load P s (Coordinates l # Coordinates r # Index i # Unsigned n # rest) =
       (Inl (ExcMessage
               (size_mismatch_message (unat n) (unat (n_properties_per_slot (s q))))),
        P\<lparr>location := l, reference_location := r, id := i, properties := Slot h\<rparr>,
        s', rest)"
    by (simp add: load_header)
  with live show ?thesis by blast
qed

theorem load_size_mismatch_witness:
  "particle_ok example_store bound_particle \<and> property_pool bound_particle = Some 0 \<and>
   (0 :: 32 word) < 3 \<and> unat (3 :: 32 word) \<noteq> unat (n_properties_per_slot (example_store 0)) \<and>
   fst (load bound_particle example_store
          [Coordinates [1, 2], Coordinates [3, 4], Index 7, Unsigned 3, Doubles [5, 6, 7]]) =
     Inl (ExcMessage ''This particle was serialized with 3 properties, but the new property handler provides space for 2 properties. Deserializing a particle only works for matching property sizes.'')"
proof -
  have a: "property_pool bound_particle = Some 0"
    by (simp add: bound_particle_def)
  have b: "(0 :: 32 word) < 3" by simp
  have c: "unat (3 :: 32 word) \<noteq> unat (n_properties_per_slot (example_store 0))"
    by (simp add: example_store_def pool_of_two_def)
  have d: "n_properties_per_slot (example_store 0) = 2"
    by (simp add: example_store_def pool_of_two_def)
  from load_size_mismatch [OF example_particles_ok(2) a b c,
      of "[1, 2]" "[3, 4]" 7 "[Doubles [5, 6, 7]]"]
  show ?thesis
    using a b c by (auto simp: d size_mismatch_message_def to_string.simps example_particles_ok)
qed

subsection \<open>Saving and loading again\<close>

text \<open>
  Claim C3. Let \<open>P\<close> be a well-formed particle in a store \<open>s\<close>, and \<open>Q\<close> a well-formed
  particle in a store \<open>t\<close>, bound to a pool whose configured property count equals the
  number of \<open>P\<close>'s property values. Then \<^verbatim>\<open>save\<close> of \<open>P\<close> produces a record, and
  \<^verbatim>\<open>load\<close> of that record into \<open>Q\<close> (whatever follows the record in the archive)
  succeeds, consumes exactly the record, and leaves a particle with the location, the
  reference location, the id and the property values of \<open>P\<close>, each equal bit for bit.
\<close>

theorem load_save_round_trip:
  assumes "particle_ok s P" and "particle_ok t Q" and "property_pool Q = Some q"
    and "unat (n_properties_per_slot (t q)) = length (property_values s P)"
  shows "\<exists>saved. save P s [] = (Inr (), saved) \<and>
           (\<exists>Q' t'. load Q t (saved @ rest) = (Inr (), Q', t', rest) \<and>
              location Q' = location P \<and>
              reference_location Q' = reference_location P \<and>
              id Q' = id P \<and>
              property_values t' Q' = property_values s P)"
proof (cases "property_values s P = []")
  case True
  let ?Q' = "Q\<lparr>location := location P, reference_location := reference_location P,
               id := id P\<rparr>"
  from True assms(4) have zero: "n_properties_per_slot (t q) = 0"
    by (simp add: unat_eq_0)
  have rec: "save P s [] =
               (Inr (),
                [Coordinates (location P), Coordinates (reference_location P),
                 Index (id P), Unsigned 0])"
  proof (cases "has_properties P")
    case False
    then show ?thesis by (simp add: save_without_properties)
  next
    case hp: True
    then obtain p h where ph: "property_pool P = Some p" "properties P = Slot h"
      by (cases "properties P") (auto simp: has_properties_def)
    note live = particle_ok_live [OF assms(1) ph]
    from property_values_live(2) [where s = s, OF ph live] True
    have "n_properties_per_slot (s p) = 0" by (simp add: unat_eq_0)
    with save_with_properties [where s = s, OF ph live] show ?thesis by simp
  qed
  have "property_values t ?Q' = []"
  proof (cases "properties Q")
    case invalid_handle
    then show ?thesis by (simp add: property_values_none has_properties_def)
  next
    case (Slot h)
    have q': "property_pool ?Q' = Some q" and h': "properties ?Q' = Slot h"
      using assms(3) Slot by simp_all
    note live = particle_ok_live [OF assms(2,3) Slot]
    from property_values_live(2) [where s = t, OF q' h' live] zero
    show ?thesis by simp
  qed
  with rec True show ?thesis
    by (simp add: load_header)
next
  case False
  then have hp: "has_properties P"
    using property_values_none by blast
  then obtain p h where ph: "property_pool P = Some p" "properties P = Slot h"
    by (cases "properties P") (auto simp: has_properties_def)
  note live = particle_ok_live [OF assms(1) ph]
  note vals = property_values_live [where s = s, OF ph live]
  from vals False have pos: "0 < n_properties_per_slot (s p)"
    by (auto simp: word_greater_zero_iff unat_eq_0)
  from vals assms(4) have same: "n_properties_per_slot (s p) = n_properties_per_slot (t q)"
    by (simp add: word_unat_eq_iff)
  from save_with_properties [where s = s, OF ph live, of "[]"] pos vals(1)
  have rec: "save P s [] =
               (Inr (),
                [Coordinates (location P), Coordinates (reference_location P),
                 Index (id P), Unsigned (n_properties_per_slot (s p)),
                 Doubles (property_values s P)])"
    by simp
  from load_with_properties [OF assms(2,3) pos same vals(2),
      of "location P" "reference_location P" "id P" rest]
  obtain h' t' where
    "load Q t (Coordinates (location P) # Coordinates (reference_location P) #
        Index (id P) # Unsigned (n_properties_per_slot (s p)) #
        Doubles (property_values s P) # rest) =
       (Inr (),
        Q\<lparr>location := location P, reference_location := reference_location P,
          id := id P, properties := Slot h'\<rparr>, t', rest)"
    "property_values t'
       (Q\<lparr>location := location P, reference_location := reference_location P,
          id := id P, properties := Slot h'\<rparr>) = property_values s P"
    by blast
  with rec show ?thesis by simp
qed

theorem load_save_round_trip_witness:
  "particle_ok example_store owning_particle \<and>
   particle_ok example_store bound_particle \<and>
   property_pool bound_particle = Some 0 \<and>
   unat (n_properties_per_slot (example_store 0)) =
     length (property_values example_store owning_particle) \<and>
   save owning_particle example_store [] =
     (Inr (), [Coordinates [1, 2], Coordinates [3, 4], Index 7, Unsigned 2, Doubles [5, 6]]) \<and>
   (\<exists>Q' t'.
      load bound_particle example_store
        [Coordinates [1, 2], Coordinates [3, 4], Index 7, Unsigned 2, Doubles [5, 6]] =
        (Inr (), Q', t', []) \<and>
      location Q' = [1, 2] \<and> reference_location Q' = [3, 4] \<and> id Q' = 7 \<and>
      property_values t' Q' = [5, 6])"
proof -
  have a: "property_pool bound_particle = Some 0"
    by (simp add: bound_particle_def)
  have v: "property_values example_store owning_particle = [5, 6]"
    by (simp add: property_values_def get_properties_const_def has_properties_def
          pool_get_properties_def is_live_def read_view_def example_store_def
          pool_of_two_def owning_particle_def)
  have b: "unat (n_properties_per_slot (example_store 0)) =
             length (property_values example_store owning_particle)"
    by (simp add: v) (simp add: example_store_def pool_of_two_def)
  have c: "save owning_particle example_store [] =
     (Inr (), [Coordinates [1, 2], Coordinates [3, 4], Index 7, Unsigned 2, Doubles [5, 6]])"
    by (simp add: save_def get_properties_const_def has_properties_def
          pool_get_properties_def is_live_def read_view_def example_store_def
          pool_of_two_def owning_particle_def)
  from load_save_round_trip [OF example_particles_ok(1) example_particles_ok(2) a b, of "[]"]
  show ?thesis
    using a b by (simp add: c v example_particles_ok) (simp add: owning_particle_def)
qed

subsection \<open>Rebinding the pool\<close>

text \<open>
  Claim C2, as stated: after \<^verbatim>\<open>set_property_pool\<close> the particle's property values
  are unchanged. The particle below has the two values 5, 6 in a pool of two properties
  per slot; rebound to a pool of three properties per slot, it has three values, of which
  the first two are 5, 6.
\<close>

theorem set_property_pool_atomic_counterexample:
  "particle_ok example_store owning_particle \<and>
   pool_ok (example_store 1) \<and>
   property_values example_store owning_particle = [5, 6] \<and>
   fst (set_property_pool 1 owning_particle example_store) = Inr () \<and>
   length
     (property_values (snd (snd (set_property_pool 1 owning_particle example_store)))
        (fst (snd (set_property_pool 1 owning_particle example_store)))) = 3 \<and>
   take 2
     (property_values (snd (snd (set_property_pool 1 owning_particle example_store)))
        (fst (snd (set_property_pool 1 owning_particle example_store)))) = [5, 6]"
  by (simp add: particle_ok_def pool_ok_def is_live_def example_store_def pool_of_two_def
        pool_of_three_def owning_particle_def property_values_def get_properties_const_def
        has_properties_def pool_get_properties_def read_view_def write_view_def
        set_property_pool_def release_and_rebind_def get_properties_def copy_view_def
        allocate_properties_array_def deallocate_properties_array_def)

text \<open>
  Claim C2, amended. On a well-formed particle that owns slot \<open>h\<close> of pool \<open>q\<close>, with
  a well-formed new pool \<open>q'\<close> whose property count is at least the old pool's,
  \<^verbatim>\<open>set_property_pool\<close> succeeds: the particle is bound to the new pool and owns a slot
  there, and its old slot is released. It then shows as many values as the new pool has
  per slot, and the first of them are its old values; so its values are unchanged when
  the two counts are equal. No step is undone: whenever the call fails, it has released
  and rebound nothing, the particle is the one it was given, and the store differs from
  the one it was given by the allocation in the new pool only.
\<close>

theorem set_property_pool_atomic:
  "(\<forall>e P' s'. set_property_pool q' P s = (Inl e, P', s') \<longrightarrow>
      P' = P \<and> s' = s(q' := snd (allocate_properties_array (s q')))) \<and>
   (particle_ok s P \<and> property_pool P = Some q \<and> properties P = Slot h \<and>
    pool_ok (s q') \<and>
    unat (n_properties_per_slot (s q)) \<le> unat (n_properties_per_slot (s q')) \<longrightarrow>
      (\<exists>h' s'.
         set_property_pool q' P s =
           (Inr (), P\<lparr>property_pool := Some q', properties := Slot h'\<rparr>, s') \<and>
         particle_ok s' (P\<lparr>property_pool := Some q', properties := Slot h'\<rparr>) \<and>
         \<not> is_live (s' q) h \<and>
         length (property_values s' (P\<lparr>property_pool := Some q', properties := Slot h'\<rparr>)) =
           unat (n_properties_per_slot (s q')) \<and>
         take (length (property_values s P))
           (property_values s' (P\<lparr>property_pool := Some q', properties := Slot h'\<rparr>)) =
           property_values s P \<and>
         (n_properties_per_slot (s q') = n_properties_per_slot (s q) \<longrightarrow>
            property_values s' (P\<lparr>property_pool := Some q', properties := Slot h'\<rparr>) =
              property_values s P)))"
proof (intro conjI allI impI)
  fix e P' s'
  assume "set_property_pool q' P s = (Inl e, P', s')"
  then show "P' = P" and "s' = s(q' := snd (allocate_properties_array (s q')))"
    by (rule set_property_pool_failure)+
next
  assume "particle_ok s P \<and> property_pool P = Some q \<and> properties P = Slot h \<and>
    pool_ok (s q') \<and>
    unat (n_properties_per_slot (s q)) \<le> unat (n_properties_per_slot (s q'))"
  then have ok: "particle_ok s P" and q: "property_pool P = Some q"
    and h: "properties P = Slot h" and ok': "pool_ok (s q')"
    and le: "unat (n_properties_per_slot (s q)) \<le> unat (n_properties_per_slot (s q'))"
    by simp_all
  note live = particle_ok_live [OF ok q h]
  note vals = property_values_live [where s = s, OF q h live]
  from set_property_pool_rebinds [OF ok q h ok'] le obtain h' s'
    where r: "set_property_pool q' P s =
             (Inr (), P\<lparr>property_pool := Some q', properties := Slot h'\<rparr>, s')"
        "particle_ok s' (P\<lparr>property_pool := Some q', properties := Slot h'\<rparr>)"
        "\<not> is_live (s' q) h"
      and pv: "property_values s' (P\<lparr>property_pool := Some q', properties := Slot h'\<rparr>) =
           take (unat (n_properties_per_slot (s q')))
             (property_values s P @
              replicate (unat (n_properties_per_slot (s q')) -
                         unat (n_properties_per_slot (s q))) 0)"
    by blast
  from pv vals(2) le
  have pv': "property_values s' (P\<lparr>property_pool := Some q', properties := Slot h'\<rparr>) =
      property_values s P @
      replicate (unat (n_properties_per_slot (s q')) - unat (n_properties_per_slot (s q))) 0"
    by simp
  from r pv' vals(2) le
  show "\<exists>h' s'.
         set_property_pool q' P s =
           (Inr (), P\<lparr>property_pool := Some q', properties := Slot h'\<rparr>, s') \<and>
         particle_ok s' (P\<lparr>property_pool := Some q', properties := Slot h'\<rparr>) \<and>
         \<not> is_live (s' q) h \<and>
         length (property_values s' (P\<lparr>property_pool := Some q', properties := Slot h'\<rparr>)) =
           unat (n_properties_per_slot (s q')) \<and>
         take (length (property_values s P))
           (property_values s' (P\<lparr>property_pool := Some q', properties := Slot h'\<rparr>)) =
           property_values s P \<and>
         (n_properties_per_slot (s q') = n_properties_per_slot (s q) \<longrightarrow>
            property_values s' (P\<lparr>property_pool := Some q', properties := Slot h'\<rparr>) =
              property_values s P)"
    by (intro exI [of _ h'] exI [of _ s']) simp
qed

theorem set_property_pool_atomic_witness:
  "particle_ok example_store owning_particle \<and>
   property_pool owning_particle = Some 0 \<and> properties owning_particle = Slot 0 \<and>
   pool_ok (example_store 0) \<and>
   unat (n_properties_per_slot (example_store 0)) \<le>
     unat (n_properties_per_slot (example_store 0)) \<and>
   set_property_pool 0 owning_particle example_store =
     (Inr (), owning_particle\<lparr>properties := Slot 1\<rparr>,
      example_store(0 := pool_of_two\<lparr>slots := [[5, 6], [5, 6]], free_list := [0]\<rparr>)) \<and>
   property_values
     (example_store(0 := pool_of_two\<lparr>slots := [[5, 6], [5, 6]], free_list := [0]\<rparr>))
     (owning_particle\<lparr>properties := Slot 1\<rparr>) = [5, 6] \<and>
   set_property_pool 1 (owning_particle\<lparr>properties := Slot 5\<rparr>) example_store =
     (Inl ExcInvalidHandle, owning_particle\<lparr>properties := Slot 5\<rparr>,
      example_store(1 := snd (allocate_properties_array (example_store 1))))"
proof -
  have a: "property_pool owning_particle = Some 0" "properties owning_particle = Slot 0"
    by (simp_all add: owning_particle_def)
  have b: "pool_ok (example_store 0)"
    by (simp add: pool_ok_def example_store_def pool_of_two_def)
  have c: "unat (n_properties_per_slot (example_store 0)) \<le>
     unat (n_properties_per_slot (example_store 0))"
    by simp
  have d: "set_property_pool 0 owning_particle example_store =
     (Inr (), owning_particle\<lparr>properties := Slot 1\<rparr>,
      example_store(0 := pool_of_two\<lparr>slots := [[5, 6], [5, 6]], free_list := [0]\<rparr>))"
    by (simp add: is_live_def example_store_def pool_of_two_def
        pool_of_three_def owning_particle_def
        pool_get_properties_def read_view_def write_view_def
        set_property_pool_def release_and_rebind_def get_properties_def copy_view_def
        allocate_properties_array_def deallocate_properties_array_def fun_eq_iff)
  have e: "fst (set_property_pool 1 (owning_particle\<lparr>properties := Slot 5\<rparr>) example_store) =
      Inl ExcInvalidHandle"
    by (simp add: is_live_def example_store_def pool_of_two_def
        pool_of_three_def owning_particle_def pool_get_properties_def
        set_property_pool_def get_properties_def allocate_properties_array_def)
  have f: "property_values
      (example_store(0 := pool_of_two\<lparr>slots := [[5, 6], [5, 6]], free_list := [0]\<rparr>))
      (owning_particle\<lparr>properties := Slot 1\<rparr>) = [5, 6]"
    by (simp add: property_values_def get_properties_const_def has_properties_def
        pool_get_properties_def is_live_def read_view_def pool_of_two_def
        owning_particle_def)
  obtain P' s' where g: "set_property_pool 1 (owning_particle\<lparr>properties := Slot 5\<rparr>)
      example_store = (Inl ExcInvalidHandle, P', s')"
    using e by (cases "set_property_pool 1 (owning_particle\<lparr>properties := Slot 5\<rparr>)
      example_store") auto
  from set_property_pool_atomic
    [of 1 "owning_particle\<lparr>properties := Slot 5\<rparr>" example_store 0 0] g
  have "set_property_pool 1 (owning_particle\<lparr>properties := Slot 5\<rparr>) example_store =
     (Inl ExcInvalidHandle, owning_particle\<lparr>properties := Slot 5\<rparr>,
      example_store(1 := snd (allocate_properties_array (example_store 1))))"
    by blast
  with set_property_pool_atomic [of 0 owning_particle example_store 0 0]
  show ?thesis
    using example_particles_ok(1) a b c d f by blast
qed

text \<open>
  Claim C10, as stated: \<^verbatim>\<open>set_property_pool\<close> on a particle that owns properties
  preserves its property values. The particle below has the three values 7, 8, 9 in a pool
  of three properties per slot; rebound to a pool of four properties per slot, it has
  four values.
\<close>

theorem set_property_pool_reallocates_counterexample:
  "property_values
     (example_store
        (1 := pool_of_three\<lparr>slots := [[7, 8, 9]]\<rparr>,
         2 := \<lparr>n_properties_per_slot = 4, slots = [], free_list = []\<rparr>))
     (owning_particle\<lparr>property_pool := Some 1\<rparr>) = [7, 8, 9] \<and>
   fst (set_property_pool 2 (owning_particle\<lparr>property_pool := Some 1\<rparr>)
          (example_store
             (1 := pool_of_three\<lparr>slots := [[7, 8, 9]]\<rparr>,
              2 := \<lparr>n_properties_per_slot = 4, slots = [], free_list = []\<rparr>))) = Inr () \<and>
   length
     (property_values
        (snd (snd (set_property_pool 2 (owning_particle\<lparr>property_pool := Some 1\<rparr>)
          (example_store
             (1 := pool_of_three\<lparr>slots := [[7, 8, 9]]\<rparr>,
              2 := \<lparr>n_properties_per_slot = 4, slots = [], free_list = []\<rparr>)))))
        (fst (snd (set_property_pool 2 (owning_particle\<lparr>property_pool := Some 1\<rparr>)
          (example_store
             (1 := pool_of_three\<lparr>slots := [[7, 8, 9]]\<rparr>,
              2 := \<lparr>n_properties_per_slot = 4, slots = [], free_list = []\<rparr>)))))) = 4"
  by (simp add: is_live_def example_store_def pool_of_two_def
        pool_of_three_def owning_particle_def property_values_def get_properties_const_def
        has_properties_def pool_get_properties_def read_view_def write_view_def
        set_property_pool_def release_and_rebind_def get_properties_def copy_view_def
        allocate_properties_array_def deallocate_properties_array_def)

text \<open>
  Claim C10, amended. On a particle without properties \<^verbatim>\<open>set_property_pool\<close> only
  assigns the pool pointer: the handle is invalid afterwards and the store is unchanged,
  so nothing is allocated. On a well-formed particle that owns slot \<open>h\<close> of pool \<open>q\<close>,
  rebinding to a well-formed pool \<open>q'\<close> of any property count always succeeds, allocates
  a handle that was not live in \<open>q'\<close> and is live there afterwards, releases the old slot
  and rebinds; the particle then shows as many values as \<open>q'\<close> has per slot. Where the
  old values fit into the new slot they are its first values, and the values are the
  same when the two pools have the same count. This holds in particular when \<open>q'\<close> is
  the pool \<open>q\<close> itself: then the new handle differs from the old one and the property
  values are the same.
\<close>

theorem set_property_pool_reallocates:
  "(\<not> has_properties P \<longrightarrow>
      set_property_pool q' P s =
        (Inr (), P\<lparr>property_pool := Some q', properties := invalid_handle\<rparr>, s)) \<and>
   (particle_ok s P \<and> property_pool P = Some q \<and> properties P = Slot h \<and>
    pool_ok (s q') \<longrightarrow>
      (\<exists>h' s'.
         set_property_pool q' P s =
           (Inr (), P\<lparr>property_pool := Some q', properties := Slot h'\<rparr>, s') \<and>
         fst (allocate_properties_array (s q')) = Slot h' \<and>
         \<not> is_live (s q') h' \<and> is_live (s' q') h' \<and> \<not> is_live (s' q) h \<and>
         length (property_values s' (P\<lparr>property_pool := Some q', properties := Slot h'\<rparr>)) =
           unat (n_properties_per_slot (s q')) \<and>
         (unat (n_properties_per_slot (s q)) \<le> unat (n_properties_per_slot (s q')) \<longrightarrow>
            take (length (property_values s P))
              (property_values s' (P\<lparr>property_pool := Some q', properties := Slot h'\<rparr>)) =
              property_values s P) \<and>
         (n_properties_per_slot (s q') = n_properties_per_slot (s q) \<longrightarrow>
            property_values s' (P\<lparr>property_pool := Some q', properties := Slot h'\<rparr>) =
              property_values s P))) \<and>
   (particle_ok s P \<and> property_pool P = Some q \<and> properties P = Slot h \<longrightarrow>
      (\<exists>h' s'.
         set_property_pool q P s = (Inr (), P\<lparr>properties := Slot h'\<rparr>, s') \<and>
         fst (allocate_properties_array (s q)) = Slot h' \<and>
         h' \<noteq> h \<and> \<not> is_live (s q) h' \<and> is_live (s' q) h' \<and> \<not> is_live (s' q) h \<and>
         property_values s' (P\<lparr>properties := Slot h'\<rparr>) = property_values s P))"
proof (intro conjI impI)
  assume "\<not> has_properties P"
  then show "set_property_pool q' P s =
        (Inr (), P\<lparr>property_pool := Some q', properties := invalid_handle\<rparr>, s)"
    by (rule set_property_pool_without_properties)
next
  assume "particle_ok s P \<and> property_pool P = Some q \<and> properties P = Slot h \<and>
    pool_ok (s q')"
  then have ok: "particle_ok s P" and q: "property_pool P = Some q"
    and h: "properties P = Slot h" and ok': "pool_ok (s q')"
    by simp_all
  note live = particle_ok_live [OF ok q h]
  note vals = property_values_live [where s = s, OF q h live]
  from set_property_pool_rebinds [OF ok q h ok'] obtain h' s'
    where r: "set_property_pool q' P s =
             (Inr (), P\<lparr>property_pool := Some q', properties := Slot h'\<rparr>, s')"
        "fst (allocate_properties_array (s q')) = Slot h'"
        "\<not> is_live (s q') h'" "is_live (s' q') h'" "\<not> is_live (s' q) h"
      and pv: "property_values s' (P\<lparr>property_pool := Some q', properties := Slot h'\<rparr>) =
           take (unat (n_properties_per_slot (s q')))
             (property_values s P @
              replicate (unat (n_properties_per_slot (s q')) -
                         unat (n_properties_per_slot (s q))) 0)"
    by blast
  from pv vals(2)
  have len: "length (property_values s' (P\<lparr>property_pool := Some q', properties := Slot h'\<rparr>)) =
      unat (n_properties_per_slot (s q'))"
    by simp
  from pv vals(2)
  have pre: "take (length (property_values s P))
      (property_values s' (P\<lparr>property_pool := Some q', properties := Slot h'\<rparr>)) =
      property_values s P"
    if "unat (n_properties_per_slot (s q)) \<le> unat (n_properties_per_slot (s q'))"
    using that by simp
  from pv vals(2)
  have same: "property_values s' (P\<lparr>property_pool := Some q', properties := Slot h'\<rparr>) =
      property_values s P"
    if "n_properties_per_slot (s q') = n_properties_per_slot (s q)"
    using that by simp
  from r len pre same show "\<exists>h' s'.
         set_property_pool q' P s =
           (Inr (), P\<lparr>property_pool := Some q', properties := Slot h'\<rparr>, s') \<and>
         fst (allocate_properties_array (s q')) = Slot h' \<and>
         \<not> is_live (s q') h' \<and> is_live (s' q') h' \<and> \<not> is_live (s' q) h \<and>
         length (property_values s' (P\<lparr>property_pool := Some q', properties := Slot h'\<rparr>)) =
           unat (n_properties_per_slot (s q')) \<and>
         (unat (n_properties_per_slot (s q)) \<le> unat (n_properties_per_slot (s q')) \<longrightarrow>
            take (length (property_values s P))
              (property_values s' (P\<lparr>property_pool := Some q', properties := Slot h'\<rparr>)) =
              property_values s P) \<and>
         (n_properties_per_slot (s q') = n_properties_per_slot (s q) \<longrightarrow>
            property_values s' (P\<lparr>property_pool := Some q', properties := Slot h'\<rparr>) =
              property_values s P)"
    by (intro exI [of _ h'] exI [of _ s']) simp
next
  assume "particle_ok s P \<and> property_pool P = Some q \<and> properties P = Slot h"
  then have ok: "particle_ok s P" and q: "property_pool P = Some q"
    and h: "properties P = Slot h"
    by simp_all
  note live = particle_ok_live [OF ok q h]
  note vals = property_values_live [where s = s, OF q h live]
  from set_property_pool_rebinds [OF ok q h live(1)] obtain h' s'
    where r: "set_property_pool q P s =
             (Inr (), P\<lparr>property_pool := Some q, properties := Slot h'\<rparr>, s')"
        "fst (allocate_properties_array (s q)) = Slot h'"
        "\<not> is_live (s q) h'" "h' \<noteq> h" "is_live (s' q) h'" "\<not> is_live (s' q) h"
      and pv: "property_values s' (P\<lparr>property_pool := Some q, properties := Slot h'\<rparr>) =
           take (unat (n_properties_per_slot (s q)))
             (property_values s P @
              replicate (unat (n_properties_per_slot (s q)) -
                         unat (n_properties_per_slot (s q))) 0)"
    by auto
  from pv vals(2)
  have pv': "property_values s' (P\<lparr>property_pool := Some q, properties := Slot h'\<rparr>) =
      property_values s P"
    by simp
  from q have same: "P\<lparr>property_pool := Some q, properties := Slot h'\<rparr> =
      P\<lparr>properties := Slot h'\<rparr>"
    by (cases P) simp
  from r pv' show "\<exists>h' s'.
         set_property_pool q P s = (Inr (), P\<lparr>properties := Slot h'\<rparr>, s') \<and>
         fst (allocate_properties_array (s q)) = Slot h' \<and>
         h' \<noteq> h \<and> \<not> is_live (s q) h' \<and> is_live (s' q) h' \<and> \<not> is_live (s' q) h \<and>
         property_values s' (P\<lparr>properties := Slot h'\<rparr>) = property_values s P"
    unfolding same by (intro exI [of _ h'] exI [of _ s']) simp
qed

theorem set_property_pool_reallocates_witness:
  "particle_ok example_store owning_particle \<and>
   property_pool owning_particle = Some 0 \<and> properties owning_particle = Slot 0 \<and>
   pool_ok (example_store 1) \<and>
   (\<exists>h' s'.
      set_property_pool 1 owning_particle example_store =
        (Inr (), owning_particle\<lparr>property_pool := Some 1, properties := Slot h'\<rparr>, s') \<and>
      fst (allocate_properties_array (example_store 1)) = Slot h' \<and>
      \<not> is_live (example_store 1) h' \<and> is_live (s' 1) h' \<and> \<not> is_live (s' 0) 0 \<and>
      length (property_values s'
                (owning_particle\<lparr>property_pool := Some 1, properties := Slot h'\<rparr>)) = 3 \<and>
      take 2 (property_values s'
                (owning_particle\<lparr>property_pool := Some 1, properties := Slot h'\<rparr>)) =
        [5, 6]) \<and>
   (\<exists>h' s'.
      set_property_pool 0 owning_particle example_store =
        (Inr (), owning_particle\<lparr>properties := Slot h'\<rparr>, s') \<and>
      fst (allocate_properties_array (example_store 0)) = Slot h' \<and>
      h' \<noteq> 0 \<and> \<not> is_live (example_store 0) h' \<and> is_live (s' 0) h' \<and>
      \<not> is_live (s' 0) 0 \<and>
      property_values s' (owning_particle\<lparr>properties := Slot h'\<rparr>) = [5, 6]) \<and>
   fst (allocate_properties_array (example_store 0)) = Slot 1 \<and>
   \<not> has_properties bound_particle \<and>
   set_property_pool 1 bound_particle example_store =
     (Inr (), bound_particle\<lparr>property_pool := Some 1\<rparr>, example_store)"
proof -
  have a: "property_pool owning_particle = Some 0" "properties owning_particle = Slot 0"
    "fst (allocate_properties_array (example_store 0)) = Slot 1"
    by (simp_all add: owning_particle_def allocate_properties_array_def example_store_def
          pool_of_two_def)
  have b: "\<not> has_properties bound_particle"
    by (simp add: has_properties_def bound_particle_def)
  have c: "bound_particle\<lparr>property_pool := Some 1, properties := invalid_handle\<rparr> =
      bound_particle\<lparr>property_pool := Some 1\<rparr>"
    by (simp add: bound_particle_def)
  have k: "pool_ok (example_store 1)"
    by (simp add: pool_ok_def example_store_def pool_of_three_def)
  have v: "property_values example_store owning_particle = [5, 6]"
    by (simp add: property_values_def get_properties_const_def has_properties_def
          pool_get_properties_def is_live_def read_view_def example_store_def
          pool_of_two_def owning_particle_def)
  have n: "unat (n_properties_per_slot (example_store 0)) = 2"
    "unat (n_properties_per_slot (example_store 1)) = 3"
    "unat (n_properties_per_slot (example_store (Suc 0))) = 3"
    by (simp_all add: example_store_def pool_of_two_def pool_of_three_def)
  from set_property_pool_reallocates [of bound_particle 1 example_store] b
  have d: "set_property_pool 1 bound_particle example_store =
     (Inr (), bound_particle\<lparr>property_pool := Some 1\<rparr>, example_store)"
    unfolding c by blast
  from set_property_pool_reallocates [of owning_particle 1 example_store 0 0]
    example_particles_ok(1) a(1,2) k
  obtain h1 s1 where g:
    "set_property_pool 1 owning_particle example_store =
       (Inr (), owning_particle\<lparr>property_pool := Some 1, properties := Slot h1\<rparr>, s1)"
    "fst (allocate_properties_array (example_store 1)) = Slot h1"
    "\<not> is_live (example_store 1) h1" "is_live (s1 1) h1" "\<not> is_live (s1 0) 0"
    "length (property_values s1
               (owning_particle\<lparr>property_pool := Some 1, properties := Slot h1\<rparr>)) =
       unat (n_properties_per_slot (example_store 1))"
    "unat (n_properties_per_slot (example_store 0)) \<le>
       unat (n_properties_per_slot (example_store 1)) \<longrightarrow>
     take (length (property_values example_store owning_particle))
       (property_values s1
          (owning_particle\<lparr>property_pool := Some 1, properties := Slot h1\<rparr>)) =
       property_values example_store owning_particle"
    by blast
  from g(6) n(2)
  have g6: "length (property_values s1
               (owning_particle\<lparr>property_pool := Some 1, properties := Slot h1\<rparr>)) = 3"
    by simp
  from g(7) n(1,2) v
  have g7: "take 2 (property_values s1
               (owning_particle\<lparr>property_pool := Some 1, properties := Slot h1\<rparr>)) = [5, 6]"
    by (simp add: numeral_2_eq_2)
  from set_property_pool_reallocates [of owning_particle 0 example_store 0 0]
    example_particles_ok(1) a(1,2)
  obtain h0 s0 where s:
    "set_property_pool 0 owning_particle example_store =
       (Inr (), owning_particle\<lparr>properties := Slot h0\<rparr>, s0)"
    "fst (allocate_properties_array (example_store 0)) = Slot h0"
    "h0 \<noteq> 0" "\<not> is_live (example_store 0) h0" "is_live (s0 0) h0" "\<not> is_live (s0 0) 0"
    "property_values s0 (owning_particle\<lparr>properties := Slot h0\<rparr>) =
       property_values example_store owning_particle"
    by blast
  from s(7) v
  have s7: "property_values s0 (owning_particle\<lparr>properties := Slot h0\<rparr>) = [5, 6]"
    by simp
  from example_particles_ok(1) a b d k g(1-5) g6 g7 s(1-6) s7 show ?thesis
    by blast
qed

subsection \<open>Copying a particle\<close>

text \<open>
  Claim C6. Let the particles \<open>Ps\<close> alive in a store be well-formed and own pairwise
  different slots (a slot is a handle of one pool), and let \<open>P\<close> be one of them. Copying
  \<open>P\<close> succeeds and returns a particle \<open>Q\<close> with the location, reference location, id
  and pool of \<open>P\<close>. If \<open>P\<close> has properties, so has \<open>Q\<close>, with a handle different from
  \<open>P\<close>'s and the same property values. \<open>Q\<close> owns a slot that none of \<open>Ps\<close> owns, and
  unique ownership holds again for \<open>Q\<close> together with \<open>Ps\<close>. Whatever is then written
  through \<open>Q\<close>'s view, the property values of \<open>P\<close> and of every other particle of \<open>Ps\<close>
  stay what they were before the copy, while \<open>Q\<close> shows the values written.
\<close>

theorem copy_particle_independent:
  assumes "unique_owners s Ps" and "P \<in> set Ps"
  shows "\<exists>Q s'.
           copy_particle P s = (Inr Q, s') \<and>
           location Q = location P \<and> reference_location Q = reference_location P \<and>
           id Q = id P \<and> property_pool Q = property_pool P \<and>
           has_properties Q = has_properties P \<and>
           (has_properties P \<longrightarrow> properties Q \<noteq> properties P) \<and>
           property_values s' Q = property_values s P \<and>
           (\<forall>R \<in> set Ps. set (owned_slot Q) \<inter> set (owned_slot R) = {}) \<and>
           unique_owners s' (Q # Ps) \<and>
           (\<forall>v xs. get_properties_const s' Q = Inr v \<longrightarrow>
              (\<forall>R \<in> set Ps. property_values (write_view s' v xs) R = property_values s R) \<and>
              (length xs = view_size v \<longrightarrow> property_values (write_view s' v xs) Q = xs))"
proof -
  from copy_particle_unique [OF assms] obtain Q s'
    where r: "copy_particle P s = (Inr Q, s')"
      "location Q = location P" "reference_location Q = reference_location P"
      "id Q = id P" "property_pool Q = property_pool P"
      "has_properties Q = has_properties P"
      "has_properties P \<longrightarrow> properties Q \<noteq> properties P"
      "\<forall>R \<in> set Ps. set (owned_slot Q) \<inter> set (owned_slot R) = {}"
      "property_values s' Q = property_values s P"
      and others: "\<forall>R \<in> set Ps. property_values s' R = property_values s R"
      and u: "unique_owners s' (Q # Ps)"
    by blast
  have "(\<forall>R \<in> set Ps. property_values (write_view s' v xs) R = property_values s R) \<and>
        (length xs = view_size v \<longrightarrow> property_values (write_view s' v xs) Q = xs)"
    if "get_properties_const s' Q = Inr v" for v xs
    using write_own_view [OF u that, of xs] others by simp
  with r u show ?thesis by blast
qed

theorem copy_particle_independent_witness:
  "unique_owners example_store [owning_particle, bound_particle] \<and>
   owning_particle \<in> set [owning_particle, bound_particle] \<and>
   copy_particle owning_particle example_store =
     (Inr (owning_particle\<lparr>properties := Slot 1\<rparr>),
      example_store(0 := pool_of_two\<lparr>slots := [[5, 6], [5, 6]]\<rparr>)) \<and>
   get_properties_const (example_store(0 := pool_of_two\<lparr>slots := [[5, 6], [5, 6]]\<rparr>))
     (owning_particle\<lparr>properties := Slot 1\<rparr>) =
     Inr \<lparr>view_pool = 0, view_slot = 1, view_size = 2\<rparr> \<and>
   property_values
     (write_view (example_store(0 := pool_of_two\<lparr>slots := [[5, 6], [5, 6]]\<rparr>))
        \<lparr>view_pool = 0, view_slot = 1, view_size = 2\<rparr> [8, 9])
     owning_particle = [5, 6] \<and>
   property_values
     (write_view (example_store(0 := pool_of_two\<lparr>slots := [[5, 6], [5, 6]]\<rparr>))
        \<lparr>view_pool = 0, view_slot = 1, view_size = 2\<rparr> [8, 9])
     (owning_particle\<lparr>properties := Slot 1\<rparr>) = [8, 9]"
proof -
  have a: "unique_owners example_store [owning_particle, bound_particle]"
    by (simp add: unique_owners_def example_particles_ok)
      (simp add: owned_slot_def owning_particle_def bound_particle_def)
  have b: "owning_particle \<in> set [owning_particle, bound_particle]"
    by simp
  have two_zeros: "replicate 2 (0 :: double) = [0, 0]"
    by (simp add: numeral_2_eq_2)
  have c: "copy_particle owning_particle example_store =
     (Inr (owning_particle\<lparr>properties := Slot 1\<rparr>),
      example_store(0 := pool_of_two\<lparr>slots := [[5, 6], [5, 6]]\<rparr>))"
    by (simp add: copy_particle_def has_properties_def get_properties_const_def
          pool_get_properties_def is_live_def copy_view_def read_view_def write_view_def
          allocate_properties_array_def example_store_def pool_of_two_def
          owning_particle_def fun_eq_iff two_zeros)
  have d: "get_properties_const (example_store(0 := pool_of_two\<lparr>slots := [[5, 6], [5, 6]]\<rparr>))
     (owning_particle\<lparr>properties := Slot 1\<rparr>) =
     Inr \<lparr>view_pool = 0, view_slot = 1, view_size = 2\<rparr>"
    by (simp add: get_properties_const_def has_properties_def pool_get_properties_def
          is_live_def pool_of_two_def owning_particle_def)
  from copy_particle_independent [OF a b] c d
  have "(\<forall>R \<in> set [owning_particle, bound_particle].
           property_values
             (write_view (example_store(0 := pool_of_two\<lparr>slots := [[5, 6], [5, 6]]\<rparr>))
                \<lparr>view_pool = 0, view_slot = 1, view_size = 2\<rparr> [8, 9]) R =
           property_values example_store R) \<and>
        property_values
          (write_view (example_store(0 := pool_of_two\<lparr>slots := [[5, 6], [5, 6]]\<rparr>))
             \<lparr>view_pool = 0, view_slot = 1, view_size = 2\<rparr> [8, 9])
          (owning_particle\<lparr>properties := Slot 1\<rparr>) = [8, 9]"
    by auto
  moreover have "property_values example_store owning_particle = [5, 6]"
    by (simp add: property_values_def get_properties_const_def has_properties_def
          pool_get_properties_def is_live_def read_view_def example_store_def
          pool_of_two_def owning_particle_def)
  ultimately show ?thesis
    using a b c d by simp
qed

subsection \<open>Moving a particle\<close>

text \<open>
  Claim C7. Moving from \<open>P\<close> yields a particle \<open>Q\<close> with the location, reference
  location, id, pool pointer and handle of \<open>P\<close>, and leaves the source with an invalid
  handle, so that the source has no properties and owns no slot. If unique ownership
  held for \<open>P\<close> and the other particles \<open>Ps\<close>, it holds for \<open>Q\<close>, the source as the
  move left it and \<open>Ps\<close>: no other particle owns the slot \<open>Q\<close> has taken over.
\<close>

theorem move_particle_transfers:
  "\<exists>Q P'.
     move_particle P = (Q, P') \<and>
     location Q = location P \<and> reference_location Q = reference_location P \<and>
     id Q = id P \<and> property_pool Q = property_pool P \<and> properties Q = properties P \<and>
     properties P' = invalid_handle \<and> \<not> has_properties P' \<and>
     owned_slot Q = owned_slot P \<and> owned_slot P' = [] \<and>
     (unique_owners s (P # Ps) \<longrightarrow>
        unique_owners s (Q # P' # Ps) \<and>
        (\<forall>R \<in> set (P' # Ps). set (owned_slot R) \<inter> set (owned_slot Q) = {}))"
proof -
  let ?P' = "P\<lparr>properties := invalid_handle\<rparr>"
  have np: "\<not> has_properties ?P'"
    by (simp add: has_properties_def)
  note none = owned_slot_none [OF np]
  have "unique_owners s (P # ?P' # Ps) \<and>
        (\<forall>R \<in> set (?P' # Ps). set (owned_slot R) \<inter> set (owned_slot P) = {})"
    if u: "unique_owners s (P # Ps)"
  proof -
    from u have "particle_ok s P"
      by (simp add: unique_owners_def)
    then have "particle_ok s ?P'"
      by (simp add: particle_ok_def split: option.splits)
    with u show ?thesis
      by (auto simp: unique_owners_def none)
  qed
  with np none show ?thesis
    by (simp add: move_particle_def)
qed

theorem move_particle_transfers_witness:
  "unique_owners example_store [owning_particle, bound_particle] \<and>
   move_particle owning_particle =
     (owning_particle, owning_particle\<lparr>properties := invalid_handle\<rparr>) \<and>
   \<not> has_properties (owning_particle\<lparr>properties := invalid_handle\<rparr>) \<and>
   unique_owners example_store
     [owning_particle, owning_particle\<lparr>properties := invalid_handle\<rparr>, bound_particle]"
proof -
  have a: "unique_owners example_store [owning_particle, bound_particle]"
    by (simp add: unique_owners_def example_particles_ok)
      (simp add: owned_slot_def owning_particle_def bound_particle_def)
  from move_particle_transfers [of owning_particle example_store "[bound_particle]"] a
  show ?thesis
    by (auto simp: move_particle_def)
qed

end
